theory Spec2Isabelle
  imports Complex_Main
begin

section \<open>The discrete-time Markov model of HIV progression with economic evaluation\<close>

text \<open>
  The repository holds two modules that declare the same classes:
  \<^item> \<^verbatim>\<open>MarkovModelClasses.py\<close>: the monitor's \<^verbatim>\<open>update\<close> returns at once when the
    patient has died and keeps the flag \<^verbatim>\<open>ifDevelopedAIDS\<close>; the body of
    \<^verbatim>\<open>PatientCostUtilityMonitor.update\<close> holds a docstring and comments only.
    Its definitions carry the prefix \<open>MM_\<close>.
  \<^item> \<^verbatim>\<open>EconEvalMarkovModelClasses.py\<close>: the monitor's \<^verbatim>\<open>update\<close> has no such guard and
    \<^verbatim>\<open>PatientCostUtilityMonitor.update\<close> is written out. Its definitions carry the
    prefix \<open>EE_\<close>.
  What both modules write alike is defined once.

  Python's \<^verbatim>\<open>int\<close> is \<open>int\<close>. Python's \<^verbatim>\<open>float\<close> is modelled by \<open>real\<close>: rounding is
  not part of the model. A call that raises returns \<open>Inl\<close> of the exception; the
  fields that the call had assigned before it raised are not part of the result.
\<close>

subsection \<open>Exceptions, list indexing\<close>

datatype error = IndexError | ValueError | ZeroDivisionError

text \<open>\<^verbatim>\<open>xs[i]\<close> for an index \<open>i \<ge> 0\<close>: out of range it raises \<^verbatim>\<open>IndexError\<close>.\<close>

definition getitem :: "'a list \<Rightarrow> nat \<Rightarrow> error + 'a" where
  "getitem xs i = (if i < length xs then Inr (xs ! i) else Inl IndexError)"

subsection \<open>Health states and parameters\<close>

text \<open>
  Modelled from the spec: the enumeration \<^verbatim>\<open>HealthStates\<close> is declared in
  \<^verbatim>\<open>EconEvalInputData\<close> and \<^verbatim>\<open>ParameterClasses\<close>, which are not among the sources.
  The spec (section 3) has a finite set of named states with the indices \<open>0..S-1\<close>, one
  of them the absorbing death state; its scenario (section 8) has three states,
  Well = 0, AIDS = 1, Death = 2. The modules name the members \<^verbatim>\<open>AIDS\<close> and
  \<^verbatim>\<open>HIV_DEATH\<close>.
\<close>

datatype HealthStates = WELL | AIDS | HIV_DEATH

text \<open>Modelled from the spec: \<^verbatim>\<open>state.value\<close>, the index of a member.\<close>

fun HealthStates_value :: "HealthStates \<Rightarrow> nat" where
  "HealthStates_value WELL = 0"
| "HealthStates_value AIDS = 1"
| "HealthStates_value HIV_DEATH = 2"

text \<open>
  Modelled from the spec: \<^verbatim>\<open>HealthStates(i)\<close>, the member with the value \<open>i\<close>; Python's
  \<^verbatim>\<open>Enum\<close> raises \<^verbatim>\<open>ValueError\<close> when no member has it.
\<close>

definition HealthStates_of_value :: "nat \<Rightarrow> error + HealthStates" where
  "HealthStates_of_value i =
     (if i = 0 then Inr WELL else if i = 1 then Inr AIDS
      else if i = 2 then Inr HIV_DEATH else Inl ValueError)"

text \<open>
  Modelled from the spec: the class of the \<^verbatim>\<open>parameters\<close> object is declared outside
  the sources; these are the fields the two modules read (spec, section 3).
\<close>

record Parameters =
  initialHealthState :: HealthStates
  probMatrix :: "real list list"
  annualStateCosts :: "real list"
  annualStateUtilities :: "real list"
  annualTreatmentCost :: real
  discountRate :: real

text \<open>
  Modelled from the spec: \<^verbatim>\<open>pv_single_payment\<close> of the library \<^verbatim>\<open>deampy.econ_eval\<close>
  (spec, section 4.3: \<^verbatim>\<open>PV = payment / (1 + half_rate)^period\<close>). The period is a
  Python \<^verbatim>\<open>int\<close>, so the power is \<open>powi\<close>; Python's division by zero raises.
\<close>

definition pv_single_payment :: "real \<Rightarrow> real \<Rightarrow> int \<Rightarrow> error + real" where
  "pv_single_payment payment discount_rate discount_period =
     (if (1 + discount_rate) powi discount_period = 0 then Inl ZeroDivisionError
      else Inr (payment / (1 + discount_rate) powi discount_period))"

subsection \<open>PatientCostUtilityMonitor\<close>

record PatientCostUtilityMonitor =
  params :: Parameters
  totalDiscountedCost :: real
  totalDiscountedUtility :: real

text \<open>\<^verbatim>\<open>PatientCostUtilityMonitor.__init__\<close>, the same in both modules.\<close>

definition PatientCostUtilityMonitor_init :: "Parameters \<Rightarrow> PatientCostUtilityMonitor" where
  "PatientCostUtilityMonitor_init parameters =
     \<lparr>params = parameters, totalDiscountedCost = 0, totalDiscountedUtility = 0\<rparr>"

text \<open>
  \<^verbatim>\<open>MarkovModelClasses.PatientCostUtilityMonitor.update\<close>: the body is the docstring;
  nothing is read and nothing is assigned.
\<close>

definition MM_PatientCostUtilityMonitor_update ::
  "int \<Rightarrow> HealthStates \<Rightarrow> HealthStates \<Rightarrow> PatientCostUtilityMonitor \<Rightarrow> PatientCostUtilityMonitor" where
  "MM_PatientCostUtilityMonitor_update k current_state next_state self = self"

text \<open>
  \<^verbatim>\<open>EconEvalMarkovModelClasses.PatientCostUtilityMonitor.update\<close>. The local \<^verbatim>\<open>cost\<close>
  when the totals are updated: the mean of the two states' annual costs, then the
  cost of treatment.
\<close>

definition EE_cost :: "Parameters \<Rightarrow> HealthStates \<Rightarrow> HealthStates \<Rightarrow> error + real" where
  "EE_cost ps current_state next_state =
     (case getitem (annualStateCosts ps) (HealthStates_value current_state) of
        Inl e \<Rightarrow> Inl e
      | Inr c1 \<Rightarrow>
     (case getitem (annualStateCosts ps) (HealthStates_value next_state) of
        Inl e \<Rightarrow> Inl e
      | Inr c2 \<Rightarrow>
          Inr (if next_state = HIV_DEATH
               then 0.5 * (c1 + c2) + 0.5 * annualTreatmentCost ps
               else 0.5 * (c1 + c2) + 1 * annualTreatmentCost ps)))"

text \<open>The local \<^verbatim>\<open>utility\<close>.\<close>

definition EE_utility :: "Parameters \<Rightarrow> HealthStates \<Rightarrow> HealthStates \<Rightarrow> error + real" where
  "EE_utility ps current_state next_state =
     (case getitem (annualStateUtilities ps) (HealthStates_value current_state) of
        Inl e \<Rightarrow> Inl e
      | Inr u1 \<Rightarrow>
     (case getitem (annualStateUtilities ps) (HealthStates_value next_state) of
        Inl e \<Rightarrow> Inl e
      | Inr u2 \<Rightarrow> Inr (0.5 * (u1 + u2))))"

text \<open>
  The source reads the two costs, then the two utilities, then adds the treatment
  cost to \<^verbatim>\<open>cost\<close>; the additions cannot raise, so the order of \<open>EE_cost\<close> and
  \<open>EE_utility\<close> gives the same exception.
\<close>

definition EE_PatientCostUtilityMonitor_update ::
  "int \<Rightarrow> HealthStates \<Rightarrow> HealthStates \<Rightarrow> PatientCostUtilityMonitor
     \<Rightarrow> error + PatientCostUtilityMonitor" where
  "EE_PatientCostUtilityMonitor_update k current_state next_state self =
     (case EE_cost (params self) current_state next_state of
        Inl e \<Rightarrow> Inl e
      | Inr cost \<Rightarrow>
     (case EE_utility (params self) current_state next_state of
        Inl e \<Rightarrow> Inl e
      | Inr utility \<Rightarrow>
     (case pv_single_payment cost (discountRate (params self) / 2) (2 * k + 1) of
        Inl e \<Rightarrow> Inl e
      | Inr pv_cost \<Rightarrow>
     (case pv_single_payment utility (discountRate (params self) / 2) (2 * k + 1) of
        Inl e \<Rightarrow> Inl e
      | Inr pv_utility \<Rightarrow>
          Inr (self\<lparr>totalDiscountedCost := totalDiscountedCost self + pv_cost,
                    totalDiscountedUtility := totalDiscountedUtility self + pv_utility\<rparr>)))))"

subsection \<open>PatientStateMonitor\<close>

text \<open>
  The fields of \<^verbatim>\<open>EconEvalMarkovModelClasses.PatientStateMonitor\<close>;
  \<^verbatim>\<open>MarkovModelClasses.PatientStateMonitor\<close> has \<^verbatim>\<open>ifDevelopedAIDS\<close> besides.
  \<^verbatim>\<open>None\<close> is \<open>None\<close>.
\<close>

record PatientStateMonitor =
  currentState :: HealthStates
  survivalTime :: "real option"
  timeToAIDS :: "real option"
  costUtilityMonitor :: PatientCostUtilityMonitor

record MM_PatientStateMonitor = PatientStateMonitor +
  ifDevelopedAIDS :: bool

definition EE_PatientStateMonitor_init :: "Parameters \<Rightarrow> PatientStateMonitor" where
  "EE_PatientStateMonitor_init parameters =
     \<lparr>currentState = initialHealthState parameters,
      survivalTime = None,
      timeToAIDS = None,
      costUtilityMonitor = PatientCostUtilityMonitor_init parameters\<rparr>"

definition MM_PatientStateMonitor_init :: "Parameters \<Rightarrow> MM_PatientStateMonitor" where
  "MM_PatientStateMonitor_init parameters =
     \<lparr>currentState = initialHealthState parameters,
      survivalTime = None,
      timeToAIDS = None,
      costUtilityMonitor = PatientCostUtilityMonitor_init parameters,
      ifDevelopedAIDS = False\<rparr>"

text \<open>\<^verbatim>\<open>get_if_alive\<close>, the same in both modules.\<close>

definition get_if_alive :: "'a PatientStateMonitor_scheme \<Rightarrow> bool" where
  "get_if_alive self = (if currentState self \<noteq> HIV_DEATH then True else False)"

text \<open>\<^verbatim>\<open>EconEvalMarkovModelClasses.PatientStateMonitor.update\<close>.\<close>

definition EE_PatientStateMonitor_update ::
  "int \<Rightarrow> HealthStates \<Rightarrow> PatientStateMonitor \<Rightarrow> error + PatientStateMonitor" where
  "EE_PatientStateMonitor_update time_step new_state self =
     (let s1 = (if new_state = HIV_DEATH
                then self\<lparr>survivalTime := Some (real_of_int time_step + 0.5)\<rparr>
                else self);
          s2 = (if currentState s1 \<noteq> AIDS \<and> new_state = AIDS
                then s1\<lparr>timeToAIDS := Some (real_of_int time_step + 0.5)\<rparr>
                else s1)
      in case EE_PatientCostUtilityMonitor_update time_step (currentState s2) new_state
                (costUtilityMonitor s2) of
           Inl e \<Rightarrow> Inl e
         | Inr cu \<Rightarrow> Inr (s2\<lparr>costUtilityMonitor := cu, currentState := new_state\<rparr>))"

text \<open>\<^verbatim>\<open>MarkovModelClasses.PatientStateMonitor.update\<close>.\<close>

definition MM_PatientStateMonitor_update ::
  "int \<Rightarrow> HealthStates \<Rightarrow> MM_PatientStateMonitor \<Rightarrow> MM_PatientStateMonitor" where
  "MM_PatientStateMonitor_update time_step new_state self =
     (if currentState self = HIV_DEATH then self
      else
        let s1 = (if new_state = HIV_DEATH
                  then self\<lparr>survivalTime := Some (real_of_int time_step + 0.5)\<rparr>
                  else self);
            s2 = (if currentState s1 \<noteq> AIDS \<and> new_state = AIDS
                  then s1\<lparr>ifDevelopedAIDS := True,
                          timeToAIDS := Some (real_of_int time_step + 0.5)\<rparr>
                  else s1);
            s3 = s2\<lparr>costUtilityMonitor :=
                      MM_PatientCostUtilityMonitor_update time_step (currentState s2) new_state
                        (costUtilityMonitor s2)\<rparr>
        in s3\<lparr>currentState := new_state\<rparr>)"

subsection \<open>Patient\<close>

text \<open>
  The libraries that draw the next state are outside the sources; their calls are
  parameters of the model, functions of the generator's state that return the drawn
  index and the generator's next state:
  \<^item> \<open>RandomState\<close> is \<^verbatim>\<open>np.random.RandomState(seed=...)\<close> and \<open>get_next_state\<close> is
    \<^verbatim>\<open>MarkovJumpProcess(transition_prob_matrix=...).get_next_state(current_state_index=..., rng=...)\<close>;
  \<^item> \<open>RNG\<close> is \<^verbatim>\<open>RVGs.RNG(seed=...)\<close> and \<open>Empirical_sample\<close> is
    \<^verbatim>\<open>RVGs.Empirical(probabilities=...).sample(rng=...)\<close>.
\<close>

record 'm Patient =
  Patient_id :: int
  Patient_params :: Parameters
  stateMonitor :: 'm

record ('m, 'r) MM_Patient = "'m Patient" +
  rng :: 'r

definition EE_Patient_init :: "int \<Rightarrow> Parameters \<Rightarrow> PatientStateMonitor Patient" where
  "EE_Patient_init ident parameters =
     \<lparr>Patient_id = ident, Patient_params = parameters,
      stateMonitor = EE_PatientStateMonitor_init parameters\<rparr>"

definition MM_Patient_init ::
  "(int \<Rightarrow> 'r) \<Rightarrow> int \<Rightarrow> Parameters \<Rightarrow> (MM_PatientStateMonitor, 'r) MM_Patient" where
  "MM_Patient_init RNG ident parameters =
     \<lparr>Patient_id = ident, Patient_params = parameters,
      stateMonitor = MM_PatientStateMonitor_init parameters,
      rng = RNG ident\<rparr>"

text \<open>
  The \<^verbatim>\<open>while\<close> loop of \<^verbatim>\<open>EconEvalMarkovModelClasses.Patient.simulate\<close>, from the
  step counter \<open>k\<close>. It returns the counter at the exit and the patient.
\<close>

function EE_Patient_simulate_loop ::
  "(real list list \<Rightarrow> nat \<Rightarrow> 'r \<Rightarrow> nat \<times> 'r) \<Rightarrow> int \<Rightarrow> int \<Rightarrow> 'r \<Rightarrow> PatientStateMonitor Patient
     \<Rightarrow> error + int \<times> PatientStateMonitor Patient" where
  "EE_Patient_simulate_loop get_next_state n_time_steps k r self =
     (if get_if_alive (stateMonitor self) \<and> k < n_time_steps then
        (case get_next_state (probMatrix (Patient_params self))
                (HealthStates_value (currentState (stateMonitor self))) r of
           (new_state_index, r') \<Rightarrow>
        (case HealthStates_of_value new_state_index of
           Inl e \<Rightarrow> Inl e
         | Inr new_state \<Rightarrow>
        (case EE_PatientStateMonitor_update k new_state (stateMonitor self) of
           Inl e \<Rightarrow> Inl e
         | Inr sm \<Rightarrow>
             EE_Patient_simulate_loop get_next_state n_time_steps (k + 1) r'
               (self\<lparr>stateMonitor := sm\<rparr>))))
      else Inr (k, self))"
  by pat_completeness auto
termination
  by (relation "measure (\<lambda>(g, n, k, r, self). nat (n - k))") auto

declare EE_Patient_simulate_loop.simps [simp del]

definition EE_Patient_simulate ::
  "(int \<Rightarrow> 'r) \<Rightarrow> (real list list \<Rightarrow> nat \<Rightarrow> 'r \<Rightarrow> nat \<times> 'r) \<Rightarrow> PatientStateMonitor Patient \<Rightarrow> int
     \<Rightarrow> error + int \<times> PatientStateMonitor Patient" where
  "EE_Patient_simulate RandomState get_next_state self n_time_steps =
     EE_Patient_simulate_loop get_next_state n_time_steps 0 (RandomState (Patient_id self)) self"

text \<open>The \<^verbatim>\<open>while\<close> loop of \<^verbatim>\<open>MarkovModelClasses.Patient.simulate\<close>.\<close>

function MM_Patient_simulate_loop ::
  "(real list \<Rightarrow> 'r \<Rightarrow> nat \<times> 'r) \<Rightarrow> int \<Rightarrow> int \<Rightarrow> (MM_PatientStateMonitor, 'r) MM_Patient
     \<Rightarrow> error + int \<times> (MM_PatientStateMonitor, 'r) MM_Patient" where
  "MM_Patient_simulate_loop Empirical_sample n_time_steps k self =
     (if get_if_alive (stateMonitor self) \<and> k < n_time_steps then
        (case getitem (probMatrix (Patient_params self))
                (HealthStates_value (currentState (stateMonitor self))) of
           Inl e \<Rightarrow> Inl e
         | Inr trans_probs \<Rightarrow>
        (case Empirical_sample trans_probs (rng self) of
           (new_state_index, r') \<Rightarrow>
        (case HealthStates_of_value new_state_index of
           Inl e \<Rightarrow> Inl e
         | Inr new_state \<Rightarrow>
             MM_Patient_simulate_loop Empirical_sample n_time_steps (k + 1)
               (self\<lparr>rng := r',
                     stateMonitor :=
                       MM_PatientStateMonitor_update k new_state (stateMonitor self)\<rparr>))))
      else Inr (k, self))"
  by pat_completeness auto
termination
  by (relation "measure (\<lambda>(g, n, k, self). nat (n - k))") auto

declare MM_Patient_simulate_loop.simps [simp del]

definition MM_Patient_simulate ::
  "(real list \<Rightarrow> 'r \<Rightarrow> nat \<times> 'r) \<Rightarrow> (MM_PatientStateMonitor, 'r) MM_Patient \<Rightarrow> int
     \<Rightarrow> error + int \<times> (MM_PatientStateMonitor, 'r) MM_Patient" where
  "MM_Patient_simulate Empirical_sample self n_time_steps =
     MM_Patient_simulate_loop Empirical_sample n_time_steps 0 self"

text \<open>
  The body of the \<^verbatim>\<open>while\<close> loop of \<^verbatim>\<open>EconEvalMarkovModelClasses.Patient.simulate\<close>
  at the step \<open>k\<close>, without the increment of the counter: the draw of the index, the
  state of that value, the update of the monitor. The generator is a local of
  \<^verbatim>\<open>simulate\<close> and goes with the patient.
\<close>

definition EE_Patient_simulate_step ::
  "(real list list \<Rightarrow> nat \<Rightarrow> 'r \<Rightarrow> nat \<times> 'r) \<Rightarrow> int \<Rightarrow> 'r \<times> PatientStateMonitor Patient
     \<Rightarrow> error + 'r \<times> PatientStateMonitor Patient" where
  "EE_Patient_simulate_step get_next_state k s =
     (case s of (r, self) \<Rightarrow>
     (case get_next_state (probMatrix (Patient_params self))
             (HealthStates_value (currentState (stateMonitor self))) r of
        (new_state_index, r') \<Rightarrow>
     (case HealthStates_of_value new_state_index of
        Inl e \<Rightarrow> Inl e
      | Inr new_state \<Rightarrow>
     (case EE_PatientStateMonitor_update k new_state (stateMonitor self) of
        Inl e \<Rightarrow> Inl e
      | Inr sm \<Rightarrow> Inr (r', self\<lparr>stateMonitor := sm\<rparr>)))))"

text \<open>The first \<open>j\<close> runs of the body, at the steps \<open>0, ..., j - 1\<close>.\<close>

fun EE_Patient_simulate_steps ::
  "(real list list \<Rightarrow> nat \<Rightarrow> 'r \<Rightarrow> nat \<times> 'r) \<Rightarrow> nat \<Rightarrow> 'r \<times> PatientStateMonitor Patient
     \<Rightarrow> error + 'r \<times> PatientStateMonitor Patient" where
  "EE_Patient_simulate_steps get_next_state 0 s = Inr s"
| "EE_Patient_simulate_steps get_next_state (Suc j) s =
     (case EE_Patient_simulate_steps get_next_state j s of
        Inl e \<Rightarrow> Inl e
      | Inr s' \<Rightarrow> EE_Patient_simulate_step get_next_state (int j) s')"

text \<open>
  The body of the \<^verbatim>\<open>while\<close> loop of \<^verbatim>\<open>MarkovModelClasses.Patient.simulate\<close> at the
  step \<open>k\<close>, and its first \<open>j\<close> runs.
\<close>

definition MM_Patient_simulate_step ::
  "(real list \<Rightarrow> 'r \<Rightarrow> nat \<times> 'r) \<Rightarrow> int \<Rightarrow> (MM_PatientStateMonitor, 'r) MM_Patient
     \<Rightarrow> error + (MM_PatientStateMonitor, 'r) MM_Patient" where
  "MM_Patient_simulate_step Empirical_sample k self =
     (case getitem (probMatrix (Patient_params self))
             (HealthStates_value (currentState (stateMonitor self))) of
        Inl e \<Rightarrow> Inl e
      | Inr trans_probs \<Rightarrow>
     (case Empirical_sample trans_probs (rng self) of
        (new_state_index, r') \<Rightarrow>
     (case HealthStates_of_value new_state_index of
        Inl e \<Rightarrow> Inl e
      | Inr new_state \<Rightarrow>
          Inr (self\<lparr>rng := r',
                    stateMonitor :=
                      MM_PatientStateMonitor_update k new_state (stateMonitor self)\<rparr>))))"

fun MM_Patient_simulate_steps ::
  "(real list \<Rightarrow> 'r \<Rightarrow> nat \<times> 'r) \<Rightarrow> nat \<Rightarrow> (MM_PatientStateMonitor, 'r) MM_Patient
     \<Rightarrow> error + (MM_PatientStateMonitor, 'r) MM_Patient" where
  "MM_Patient_simulate_steps Empirical_sample 0 self = Inr self"
| "MM_Patient_simulate_steps Empirical_sample (Suc j) self =
     (case MM_Patient_simulate_steps Empirical_sample j self of
        Inl e \<Rightarrow> Inl e
      | Inr self' \<Rightarrow> MM_Patient_simulate_step Empirical_sample (int j) self')"

subsection \<open>CohortOutcomes\<close>

text \<open>
  The four lists of \<^verbatim>\<open>CohortOutcomes\<close>. The summary statistics and the survival curve
  are objects of the libraries, built from these lists, and are left out.
  \<^verbatim>\<open>MarkovModelClasses\<close> appends \<^verbatim>\<open>timeToAIDS\<close> as it is when the flag is set, so
  its entries are of type \<open>real option\<close>.
\<close>

record 't CohortOutcomes =
  survivalTimes :: "real list"
  timesToAIDS :: "'t list"
  costs :: "real list"
  utilities :: "real list"

definition CohortOutcomes_init :: "'t CohortOutcomes" where
  "CohortOutcomes_init = \<lparr>survivalTimes = [], timesToAIDS = [], costs = [], utilities = []\<rparr>"

fun EE_CohortOutcomes_extract_outcomes ::
  "PatientStateMonitor Patient list \<Rightarrow> real CohortOutcomes \<Rightarrow> real CohortOutcomes" where
  "EE_CohortOutcomes_extract_outcomes [] self = self"
| "EE_CohortOutcomes_extract_outcomes (patient # simulated_patients) self =
     (let s1 = (case survivalTime (stateMonitor patient) of
                  None \<Rightarrow> self
                | Some t \<Rightarrow> self\<lparr>survivalTimes := survivalTimes self @ [t]\<rparr>);
          s2 = (case timeToAIDS (stateMonitor patient) of
                  None \<Rightarrow> s1
                | Some t \<Rightarrow> s1\<lparr>timesToAIDS := timesToAIDS s1 @ [t]\<rparr>);
          s3 = s2\<lparr>costs := costs s2 @
                     [totalDiscountedCost (costUtilityMonitor (stateMonitor patient))]\<rparr>;
          s4 = s3\<lparr>utilities := utilities s3 @
                     [totalDiscountedUtility (costUtilityMonitor (stateMonitor patient))]\<rparr>
      in EE_CohortOutcomes_extract_outcomes simulated_patients s4)"

fun MM_CohortOutcomes_extract_outcomes ::
  "(MM_PatientStateMonitor, 'r) MM_Patient list \<Rightarrow> real option CohortOutcomes
     \<Rightarrow> real option CohortOutcomes" where
  "MM_CohortOutcomes_extract_outcomes [] self = self"
| "MM_CohortOutcomes_extract_outcomes (patient # simulated_patients) self =
     (let s1 = (case survivalTime (stateMonitor patient) of
                  None \<Rightarrow> self
                | Some t \<Rightarrow> self\<lparr>survivalTimes := survivalTimes self @ [t]\<rparr>);
          s2 = (if ifDevelopedAIDS (stateMonitor patient)
                then s1\<lparr>timesToAIDS := timesToAIDS s1 @ [timeToAIDS (stateMonitor patient)]\<rparr>
                else s1);
          s3 = s2\<lparr>costs := costs s2 @
                     [totalDiscountedCost (costUtilityMonitor (stateMonitor patient))]\<rparr>;
          s4 = s3\<lparr>utilities := utilities s3 @
                     [totalDiscountedUtility (costUtilityMonitor (stateMonitor patient))]\<rparr>
      in MM_CohortOutcomes_extract_outcomes simulated_patients s4)"

subsection \<open>Cohort\<close>

record 't Cohort =
  Cohort_id :: int
  cohortOutcomes :: "'t CohortOutcomes"

record EE_Cohort = "real Cohort" +
  popSize :: int
  Cohort_params :: Parameters

record 'r MM_Cohort = "real option Cohort" +
  initialPopSize :: int
  patients :: "(MM_PatientStateMonitor, 'r) MM_Patient list"

definition EE_Cohort_init :: "int \<Rightarrow> int \<Rightarrow> Parameters \<Rightarrow> EE_Cohort" where
  "EE_Cohort_init ident pop_size parameters =
     \<lparr>Cohort_id = ident, cohortOutcomes = CohortOutcomes_init,
      popSize = pop_size, Cohort_params = parameters\<rparr>"

text \<open>
  \<^verbatim>\<open>MarkovModelClasses.Cohort.__init__\<close> populates the cohort;
  \<^verbatim>\<open>range(pop_size)\<close> is \<open>[0..pop_size - 1]\<close>, empty when \<open>pop_size \<le> 0\<close>.
\<close>

definition MM_Cohort_init :: "(int \<Rightarrow> 'r) \<Rightarrow> int \<Rightarrow> int \<Rightarrow> Parameters \<Rightarrow> 'r MM_Cohort" where
  "MM_Cohort_init RNG ident pop_size parameters =
     \<lparr>Cohort_id = ident, cohortOutcomes = CohortOutcomes_init,
      initialPopSize = pop_size,
      patients = map (\<lambda>i. MM_Patient_init RNG (ident * pop_size + i) parameters)
                   [0..pop_size - 1]\<rparr>"

text \<open>
  The first loop of \<^verbatim>\<open>EconEvalMarkovModelClasses.Cohort.simulate\<close>: the local list
  \<^verbatim>\<open>patients\<close>.
\<close>

definition EE_Cohort_populate :: "EE_Cohort \<Rightarrow> PatientStateMonitor Patient list" where
  "EE_Cohort_populate self =
     map (\<lambda>i. EE_Patient_init (Cohort_id self * popSize self + i) (Cohort_params self))
       [0..popSize self - 1]"

text \<open>The loops \<^verbatim>\<open>for patient in patients: patient.simulate(...)\<close>; an exception ends them.\<close>

fun EE_simulate_all ::
  "(int \<Rightarrow> 'r) \<Rightarrow> (real list list \<Rightarrow> nat \<Rightarrow> 'r \<Rightarrow> nat \<times> 'r) \<Rightarrow> int
     \<Rightarrow> PatientStateMonitor Patient list \<Rightarrow> error + PatientStateMonitor Patient list" where
  "EE_simulate_all RandomState get_next_state n_time_steps [] = Inr []"
| "EE_simulate_all RandomState get_next_state n_time_steps (patient # ps) =
     (case EE_Patient_simulate RandomState get_next_state patient n_time_steps of
        Inl e \<Rightarrow> Inl e
      | Inr (k, patient') \<Rightarrow>
     (case EE_simulate_all RandomState get_next_state n_time_steps ps of
        Inl e \<Rightarrow> Inl e
      | Inr ps' \<Rightarrow> Inr (patient' # ps')))"

fun MM_simulate_all ::
  "(real list \<Rightarrow> 'r \<Rightarrow> nat \<times> 'r) \<Rightarrow> int \<Rightarrow> (MM_PatientStateMonitor, 'r) MM_Patient list
     \<Rightarrow> error + (MM_PatientStateMonitor, 'r) MM_Patient list" where
  "MM_simulate_all Empirical_sample n_time_steps [] = Inr []"
| "MM_simulate_all Empirical_sample n_time_steps (patient # ps) =
     (case MM_Patient_simulate Empirical_sample patient n_time_steps of
        Inl e \<Rightarrow> Inl e
      | Inr (k, patient') \<Rightarrow>
     (case MM_simulate_all Empirical_sample n_time_steps ps of
        Inl e \<Rightarrow> Inl e
      | Inr ps' \<Rightarrow> Inr (patient' # ps')))"

definition EE_Cohort_simulate ::
  "(int \<Rightarrow> 'r) \<Rightarrow> (real list list \<Rightarrow> nat \<Rightarrow> 'r \<Rightarrow> nat \<times> 'r) \<Rightarrow> EE_Cohort \<Rightarrow> int
     \<Rightarrow> error + EE_Cohort" where
  "EE_Cohort_simulate RandomState get_next_state self n_time_steps =
     (case EE_simulate_all RandomState get_next_state n_time_steps (EE_Cohort_populate self) of
        Inl e \<Rightarrow> Inl e
      | Inr simulated \<Rightarrow>
          Inr (self\<lparr>cohortOutcomes :=
                      EE_CohortOutcomes_extract_outcomes simulated (cohortOutcomes self)\<rparr>))"

definition MM_Cohort_simulate ::
  "(real list \<Rightarrow> 'r \<Rightarrow> nat \<times> 'r) \<Rightarrow> 'r MM_Cohort \<Rightarrow> int \<Rightarrow> error + 'r MM_Cohort" where
  "MM_Cohort_simulate Empirical_sample self n_time_steps =
     (case MM_simulate_all Empirical_sample n_time_steps (patients self) of
        Inl e \<Rightarrow> Inl e
      | Inr simulated \<Rightarrow>
          Inr (self\<lparr>patients := simulated,
                    cohortOutcomes :=
                      MM_CohortOutcomes_extract_outcomes simulated (cohortOutcomes self)\<rparr>))"

subsection \<open>Inputs of the spec\<close>

text \<open>
  Modelled from the spec: the parameters input of section 6, for the three states of
  \<open>HealthStates\<close>: a transition matrix of three rows, a cost and a utility for each
  state, a treatment cost and a discount rate that are not negative.
\<close>

definition valid_Parameters :: "Parameters \<Rightarrow> bool" where
  "valid_Parameters ps \<longleftrightarrow>
     length (probMatrix ps) = 3 \<and> length (annualStateCosts ps) = 3 \<and>
     length (annualStateUtilities ps) = 3 \<and>
     0 \<le> annualTreatmentCost ps \<and> 0 \<le> discountRate ps"

text \<open>Modelled from the spec: the concrete scenario of section 8.\<close>

definition scenario :: Parameters where
  "scenario =
     \<lparr>initialHealthState = WELL,
      probMatrix = [[0.9, 0.08, 0.02], [0, 0.85, 0.15], [0, 0, 1]],
      annualStateCosts = [100, 500, 0],
      annualStateUtilities = [1, 0.7, 0],
      annualTreatmentCost = 200,
      discountRate = 0.03\<rparr>"

text \<open>
  Modelled from the spec: the TransitionSampler of section 4.1, which locates the
  first cumulative value of the row that exceeds a draw from Uniform(0,1). The state
  of the generator is the list of the draws to come, a draw below 0 counting as 0; the
  last index is returned when no cumulative value exceeds the draw. It stands for the
  libraries' samplers where a theorem is evaluated on a concrete run.
\<close>

fun first_exceeding :: "real list \<Rightarrow> real \<Rightarrow> real \<Rightarrow> nat \<Rightarrow> nat" where
  "first_exceeding [] acc u j = j"
| "first_exceeding [p] acc u j = j"
| "first_exceeding (p # ps) acc u j =
     (if u < acc + p then j else first_exceeding ps (acc + p) u (Suc j))"

definition uniform_sample :: "real list \<Rightarrow> real list \<Rightarrow> nat \<times> real list" where
  "uniform_sample probabilities us =
     (case us of
        [] \<Rightarrow> (first_exceeding probabilities 0 0 0, [])
      | u # us' \<Rightarrow> (first_exceeding probabilities 0 (max 0 u) 0, us'))"

definition uniform_get_next_state :: "real list list \<Rightarrow> nat \<Rightarrow> real list \<Rightarrow> nat \<times> real list" where
  "uniform_get_next_state transition_prob_matrix current_state_index us =
     (if current_state_index < length transition_prob_matrix
      then uniform_sample (transition_prob_matrix ! current_state_index) us
      else (current_state_index, us))"

text \<open>
  The generator of the stand-in, for \<open>RandomState\<close> and \<open>RNG\<close>: whatever the seed,
  its draws are the list given.
\<close>

definition draws :: "real list \<Rightarrow> int \<Rightarrow> real list" where
  "draws us seed = us"

text \<open>
  Modelled from the spec: the invariants of a transition matrix in section 3 (every
  row sums to 1, the row of the death state is \<open>[0, 0, 1]\<close>) do not keep a patient
  from leaving AIDS for Well. These parameters are the scenario with such a matrix.
\<close>

definition reentry :: Parameters where
  "reentry = scenario\<lparr>probMatrix := [[0.5, 0.5, 0], [0.5, 0.25, 0.25], [0, 0, 1]]\<rparr>"

text \<open>
  What a simulation leaves in the monitor of its patient: the state and the time to
  AIDS.
\<close>

definition final_timeToAIDS ::
  "error + int \<times> ('a PatientStateMonitor_scheme, 'b) Patient_scheme
     \<Rightarrow> error + HealthStates \<times> real option" where
  "final_timeToAIDS res =
     (case res of
        Inl e \<Rightarrow> Inl e
      | Inr (k, p) \<Rightarrow> Inr (currentState (stateMonitor p), timeToAIDS (stateMonitor p)))"

section \<open>Properties\<close>

subsection \<open>Indices and the accumulator\<close>

lemma HealthStates_value_less: "HealthStates_value s < 3"
  by (cases s) simp_all

lemma HealthStates_of_value_Inr: "i < 3 \<Longrightarrow> \<exists>s. HealthStates_of_value i = Inr s"
  by (simp add: HealthStates_of_value_def)

lemma EE_cost_eq:
  "3 \<le> length (annualStateCosts ps) \<Longrightarrow>
   EE_cost ps cs ns =
     Inr (0.5 * (annualStateCosts ps ! HealthStates_value cs
                 + annualStateCosts ps ! HealthStates_value ns)
          + (if ns = HIV_DEATH then 0.5 * annualTreatmentCost ps else annualTreatmentCost ps))"
  using HealthStates_value_less [of cs] HealthStates_value_less [of ns]
  by (simp add: EE_cost_def getitem_def)

lemma EE_utility_eq:
  "3 \<le> length (annualStateUtilities ps) \<Longrightarrow>
   EE_utility ps cs ns =
     Inr (0.5 * (annualStateUtilities ps ! HealthStates_value cs
                 + annualStateUtilities ps ! HealthStates_value ns))"
  using HealthStates_value_less [of cs] HealthStates_value_less [of ns]
  by (simp add: EE_utility_def getitem_def)

lemma EE_cost_nonneg:
  assumes "\<forall>c \<in> set (annualStateCosts ps). 0 \<le> c" and "0 \<le> annualTreatmentCost ps"
    and "EE_cost ps cs ns = Inr c"
  shows "0 \<le> c"
proof -
  from assms(3) have i: "HealthStates_value cs < length (annualStateCosts ps)"
    "HealthStates_value ns < length (annualStateCosts ps)"
    by (auto simp: EE_cost_def getitem_def split: if_splits sum.splits)
  with assms(1) have "0 \<le> annualStateCosts ps ! HealthStates_value cs"
    "0 \<le> annualStateCosts ps ! HealthStates_value ns"
    by (simp_all add: nth_mem)
  with assms(2,3) i show ?thesis
    by (auto simp: EE_cost_def getitem_def split: if_splits)
qed

lemma EE_utility_nonneg:
  assumes "\<forall>u \<in> set (annualStateUtilities ps). 0 \<le> u" and "EE_utility ps cs ns = Inr u"
  shows "0 \<le> u"
proof -
  from assms(2) have i: "HealthStates_value cs < length (annualStateUtilities ps)"
    "HealthStates_value ns < length (annualStateUtilities ps)"
    by (auto simp: EE_utility_def getitem_def split: if_splits sum.splits)
  with assms(1) have "0 \<le> annualStateUtilities ps ! HealthStates_value cs"
    "0 \<le> annualStateUtilities ps ! HealthStates_value ns"
    by (simp_all add: nth_mem)
  with assms(2) i show ?thesis
    by (auto simp: EE_utility_def getitem_def split: if_splits)
qed

lemma pv_single_payment_eq:
  "0 \<le> r \<Longrightarrow> pv_single_payment p r n = Inr (p / (1 + r) powi n)"
  by (simp add: pv_single_payment_def)

lemma pv_single_payment_Inr_iff:
  "pv_single_payment p r n = Inr v \<longleftrightarrow> (1 + r) powi n \<noteq> 0 \<and> v = p / (1 + r) powi n"
  by (auto simp: pv_single_payment_def)

lemma pv_single_payment_nonneg:
  assumes "0 \<le> p" and "0 \<le> r" and "pv_single_payment p r n = Inr v"
  shows "0 \<le> v"
proof -
  from assms(2) have "0 < (1 + r) powi n"
    by (simp add: zero_less_power_int)
  with assms(1,3) show ?thesis
    by (auto simp: pv_single_payment_Inr_iff)
qed

lemma EE_CU_update_Inr_iff:
  "EE_PatientCostUtilityMonitor_update k cs ns self = Inr self' \<longleftrightarrow>
   (\<exists>c u pc pu. EE_cost (params self) cs ns = Inr c \<and> EE_utility (params self) cs ns = Inr u
      \<and> pv_single_payment c (discountRate (params self) / 2) (2 * k + 1) = Inr pc
      \<and> pv_single_payment u (discountRate (params self) / 2) (2 * k + 1) = Inr pu
      \<and> self' = self\<lparr>totalDiscountedCost := totalDiscountedCost self + pc,
                     totalDiscountedUtility := totalDiscountedUtility self + pu\<rparr>)"
  by (auto simp: EE_PatientCostUtilityMonitor_update_def split: sum.splits)

lemma EE_CU_update_returns:
  assumes "valid_Parameters (params self)"
  shows "\<exists>self'. EE_PatientCostUtilityMonitor_update k cs ns self = Inr self'
           \<and> params self' = params self"
proof -
  from assms have "3 \<le> length (annualStateCosts (params self))"
    "3 \<le> length (annualStateUtilities (params self))" "0 \<le> discountRate (params self) / 2"
    by (simp_all add: valid_Parameters_def)
  then show ?thesis
    by (simp add: EE_PatientCostUtilityMonitor_update_def EE_cost_eq EE_utility_eq
        pv_single_payment_eq)
qed

text \<open>
  What \<^verbatim>\<open>EconEvalMarkovModelClasses.PatientCostUtilityMonitor.update\<close> adds to the
  totals when it returns: the present values of the step's cost and utility.
\<close>

lemma EE_CU_update_totals:
  assumes "EE_PatientCostUtilityMonitor_update k cs ns self = Inr self'"
  shows "\<exists>c u. EE_cost (params self) cs ns = Inr c \<and> EE_utility (params self) cs ns = Inr u
           \<and> totalDiscountedCost self' =
               totalDiscountedCost self + c / (1 + discountRate (params self) / 2) powi (2 * k + 1)
           \<and> totalDiscountedUtility self' =
               totalDiscountedUtility self + u / (1 + discountRate (params self) / 2) powi (2 * k + 1)
           \<and> params self' = params self"
  using assms by (auto simp: EE_CU_update_Inr_iff pv_single_payment_Inr_iff)

subsection \<open>The state monitor\<close>

lemma EE_update_Inr_iff:
  "EE_PatientStateMonitor_update k ns self = Inr self' \<longleftrightarrow>
   (\<exists>cu. EE_PatientCostUtilityMonitor_update k (currentState self) ns (costUtilityMonitor self)
            = Inr cu
      \<and> self' = \<lparr>currentState = ns,
                 survivalTime = (if ns = HIV_DEATH then Some (real_of_int k + 0.5)
                                 else survivalTime self),
                 timeToAIDS = (if currentState self \<noteq> AIDS \<and> ns = AIDS
                               then Some (real_of_int k + 0.5) else timeToAIDS self),
                 costUtilityMonitor = cu\<rparr>)"
  by (cases self) (auto simp: EE_PatientStateMonitor_update_def Let_def split: sum.splits)

lemma EE_update_returns:
  assumes "valid_Parameters (params (costUtilityMonitor self))"
  shows "\<exists>self'. EE_PatientStateMonitor_update k ns self = Inr self'
           \<and> params (costUtilityMonitor self') = params (costUtilityMonitor self)"
proof -
  from EE_CU_update_returns [OF assms, of k "currentState self" ns]
  obtain cu where
    "EE_PatientCostUtilityMonitor_update k (currentState self) ns (costUtilityMonitor self) = Inr cu"
    "params cu = params (costUtilityMonitor self)" by blast
  then show ?thesis
    by (simp add: EE_update_Inr_iff)
qed

text \<open>
  \<^verbatim>\<open>MarkovModelClasses.PatientStateMonitor.update\<close> on a patient who has died: the
  monitor is returned as it is.
\<close>

lemma MM_update_after_death:
  "currentState self = HIV_DEATH \<Longrightarrow> MM_PatientStateMonitor_update k ns self = self"
  by (simp add: MM_PatientStateMonitor_update_def)

lemma MM_update_alive:
  "currentState self \<noteq> HIV_DEATH \<Longrightarrow>
   MM_PatientStateMonitor_update k ns self =
     self\<lparr>currentState := ns,
          survivalTime := (if ns = HIV_DEATH then Some (real_of_int k + 0.5)
                           else survivalTime self),
          timeToAIDS := (if currentState self \<noteq> AIDS \<and> ns = AIDS
                         then Some (real_of_int k + 0.5) else timeToAIDS self),
          ifDevelopedAIDS := (if currentState self \<noteq> AIDS \<and> ns = AIDS then True
                              else ifDevelopedAIDS self)\<rparr>"
  by (cases self)
     (simp add: MM_PatientStateMonitor_update_def MM_PatientCostUtilityMonitor_update_def Let_def)

lemma valid_Parameters_scenario: "valid_Parameters scenario"
  by (simp add: valid_Parameters_def scenario_def)

subsection \<open>Claims on one update\<close>

text \<open>
  C1. The claim: on a monitor whose \<^verbatim>\<open>currentState\<close> is the death state, \<^verbatim>\<open>update\<close>
  changes no field. \<open>MM_update_after_death\<close> proves it of
  \<^verbatim>\<open>MarkovModelClasses\<close>. \<^verbatim>\<open>EconEvalMarkovModelClasses\<close> has no such guard: in the
  scenario of the spec, a patient who died in step 0 (the first update) and whose
  monitor is updated again in step 1 has \<^verbatim>\<open>survivalTime\<close> overwritten, 0.5 by 1.5, and
  half a year of treatment cost added to \<^verbatim>\<open>totalDiscountedCost\<close>.
\<close>

theorem C1_EE_update_after_death:
  "EE_PatientStateMonitor_update 0 HIV_DEATH (EE_PatientStateMonitor_init scenario) =
     Inr \<lparr>currentState = HIV_DEATH, survivalTime = Some 0.5, timeToAIDS = None,
          costUtilityMonitor =
            \<lparr>params = scenario, totalDiscountedCost = 30000 / 203,
             totalDiscountedUtility = 100 / 203\<rparr>\<rparr>
   \<and> EE_PatientStateMonitor_update 1 HIV_DEATH
       \<lparr>currentState = HIV_DEATH, survivalTime = Some 0.5, timeToAIDS = None,
        costUtilityMonitor =
          \<lparr>params = scenario, totalDiscountedCost = 30000 / 203,
           totalDiscountedUtility = 100 / 203\<rparr>\<rparr> =
     Inr \<lparr>currentState = HIV_DEATH, survivalTime = Some 1.5, timeToAIDS = None,
          costUtilityMonitor =
            \<lparr>params = scenario, totalDiscountedCost = 30000 / 203 + 100 / (203 / 200) ^ 3,
             totalDiscountedUtility = 100 / 203\<rparr>\<rparr>"
  by (simp add: EE_PatientStateMonitor_update_def EE_PatientCostUtilityMonitor_update_def
      EE_cost_def EE_utility_def getitem_def pv_single_payment_def Let_def
      EE_PatientStateMonitor_init_def PatientCostUtilityMonitor_init_def scenario_def)

text \<open>
  C2. An update of a monitor whose \<^verbatim>\<open>currentState\<close> is not the death state sets
  \<^verbatim>\<open>survivalTime\<close> to \<^verbatim>\<open>time_step + 0.5\<close> when \<^verbatim>\<open>new_state\<close> is the death state and
  leaves it as it is otherwise, in both modules; the update of
  \<^verbatim>\<open>EconEvalMarkovModelClasses\<close> returns on valid parameters.
\<close>

theorem C2_survivalTime_on_update:
  assumes "currentState self \<noteq> HIV_DEATH" and "currentState m \<noteq> HIV_DEATH"
  shows "survivalTime (MM_PatientStateMonitor_update time_step new_state self) =
           (if new_state = HIV_DEATH then Some (real_of_int time_step + 0.5)
            else survivalTime self)
       \<and> (\<forall>m'. EE_PatientStateMonitor_update time_step new_state m = Inr m' \<longrightarrow>
             survivalTime m' =
               (if new_state = HIV_DEATH then Some (real_of_int time_step + 0.5)
                else survivalTime m))
       \<and> (valid_Parameters (params (costUtilityMonitor m)) \<longrightarrow>
            (\<exists>m'. EE_PatientStateMonitor_update time_step new_state m = Inr m'))"
proof (intro conjI allI impI)
  show "survivalTime (MM_PatientStateMonitor_update time_step new_state self) =
          (if new_state = HIV_DEATH then Some (real_of_int time_step + 0.5)
           else survivalTime self)"
    using assms(1) by (simp add: MM_update_alive)
next
  fix m'
  assume "EE_PatientStateMonitor_update time_step new_state m = Inr m'"
  then show "survivalTime m' =
      (if new_state = HIV_DEATH then Some (real_of_int time_step + 0.5) else survivalTime m)"
    by (auto simp: EE_update_Inr_iff)
next
  assume "valid_Parameters (params (costUtilityMonitor m))"
  then show "\<exists>m'. EE_PatientStateMonitor_update time_step new_state m = Inr m'"
    using EE_update_returns by blast
qed

theorem C2_survivalTime_on_update_witness:
  "currentState (MM_PatientStateMonitor_init scenario) \<noteq> HIV_DEATH
   \<and> currentState (EE_PatientStateMonitor_init scenario) \<noteq> HIV_DEATH
   \<and> valid_Parameters (params (costUtilityMonitor (EE_PatientStateMonitor_init scenario)))
   \<and> survivalTime (MM_PatientStateMonitor_update 3 HIV_DEATH (MM_PatientStateMonitor_init scenario))
       = Some 3.5
   \<and> (\<exists>m'. EE_PatientStateMonitor_update 3 HIV_DEATH (EE_PatientStateMonitor_init scenario) = Inr m'
          \<and> survivalTime m' = Some 3.5)"
proof -
  have a: "currentState (MM_PatientStateMonitor_init scenario) \<noteq> HIV_DEATH"
    by (simp add: MM_PatientStateMonitor_init_def scenario_def)
  have b: "currentState (EE_PatientStateMonitor_init scenario) \<noteq> HIV_DEATH"
    by (simp add: EE_PatientStateMonitor_init_def scenario_def)
  have c: "valid_Parameters (params (costUtilityMonitor (EE_PatientStateMonitor_init scenario)))"
    by (simp add: EE_PatientStateMonitor_init_def PatientCostUtilityMonitor_init_def
        valid_Parameters_scenario)
  from C2_survivalTime_on_update [OF a b, of 3 HIV_DEATH] a b c show ?thesis
    by auto
qed

text \<open>
  C4. The claim: every call of the accumulator's \<^verbatim>\<open>update\<close> has the step's cost the
  mean of the two states' annual costs plus the treatment cost (half of it on death),
  and the step's utility the mean of the two utilities. \<open>EE_cost_eq\<close> and
  \<open>EE_utility_eq\<close> prove it of \<^verbatim>\<open>EconEvalMarkovModelClasses\<close>. The body of
  \<^verbatim>\<open>MarkovModelClasses.PatientCostUtilityMonitor.update\<close> is empty: in the scenario
  of the spec, the step from Well to AIDS has the cost 500 and the utility 0.85, and
  the monitor of \<^verbatim>\<open>MarkovModelClasses\<close> comes out of the update with the accumulator
  it was constructed with.
\<close>

theorem C4_MM_update_computes_no_cost:
  "EE_cost scenario WELL AIDS = Inr 500
   \<and> EE_utility scenario WELL AIDS = Inr 0.85
   \<and> MM_PatientCostUtilityMonitor_update 0 WELL AIDS (PatientCostUtilityMonitor_init scenario)
       = PatientCostUtilityMonitor_init scenario
   \<and> costUtilityMonitor
       (MM_PatientStateMonitor_update 0 AIDS (MM_PatientStateMonitor_init scenario))
       = PatientCostUtilityMonitor_init scenario"
  by (simp add: EE_cost_def EE_utility_def getitem_def scenario_def
      MM_PatientCostUtilityMonitor_update_def MM_PatientStateMonitor_update_def
      MM_PatientStateMonitor_init_def Let_def)

text \<open>
  C5. The claim: every call of the accumulator's \<^verbatim>\<open>update\<close> adds the present value
  of the step's cost and utility, at the rate \<^verbatim>\<open>discountRate / 2\<close> over \<^verbatim>\<open>2 * k + 1\<close>
  periods, to the totals. \<open>EE_CU_update_totals\<close> proves it of
  \<^verbatim>\<open>EconEvalMarkovModelClasses\<close>. In the scenario of the spec, a step 0 from Well to
  Well adds \<open>300 / 1.015\<close> to the cost and \<open>1 / 1.015\<close> to the utility there, and
  \<^verbatim>\<open>MarkovModelClasses.PatientCostUtilityMonitor.update\<close> leaves both totals 0.
\<close>

theorem C5_MM_update_leaves_totals:
  "EE_PatientCostUtilityMonitor_update 0 WELL WELL (PatientCostUtilityMonitor_init scenario) =
     Inr \<lparr>params = scenario, totalDiscountedCost = 0 + 300 / (1 + 0.03 / 2) powi (2 * 0 + 1),
          totalDiscountedUtility = 0 + 1 / (1 + 0.03 / 2) powi (2 * 0 + 1)\<rparr>
   \<and> (300 :: real) / (1 + 0.03 / 2) powi (2 * 0 + 1) \<noteq> 0
   \<and> totalDiscountedCost
       (MM_PatientCostUtilityMonitor_update 0 WELL WELL (PatientCostUtilityMonitor_init scenario)) = 0
   \<and> totalDiscountedUtility
       (MM_PatientCostUtilityMonitor_update 0 WELL WELL (PatientCostUtilityMonitor_init scenario)) = 0"
  by (simp add: EE_PatientCostUtilityMonitor_update_def EE_cost_def EE_utility_def getitem_def
      pv_single_payment_def scenario_def MM_PatientCostUtilityMonitor_update_def
      PatientCostUtilityMonitor_init_def)

text \<open>
  C6. The totals are 0 at construction. When the annual costs and utilities, the
  treatment cost and the discount rate are not negative, an update of the accumulator
  that returns leaves each total at least what it was, and the parameters as they
  were, so that the next update meets the same conditions; with a cost and a utility
  for each state the update returns. The update of \<^verbatim>\<open>MarkovModelClasses\<close> leaves the
  totals as they are.
\<close>

theorem C6_totals_monotone:
  assumes "\<forall>c \<in> set (annualStateCosts (params self)). 0 \<le> c"
    and "\<forall>u \<in> set (annualStateUtilities (params self)). 0 \<le> u"
    and "0 \<le> annualTreatmentCost (params self)"
    and "0 \<le> discountRate (params self)"
  shows "totalDiscountedCost (PatientCostUtilityMonitor_init (params self)) = 0
       \<and> totalDiscountedUtility (PatientCostUtilityMonitor_init (params self)) = 0
       \<and> (\<forall>self'. EE_PatientCostUtilityMonitor_update k current_state next_state self = Inr self' \<longrightarrow>
             totalDiscountedCost self \<le> totalDiscountedCost self'
             \<and> totalDiscountedUtility self \<le> totalDiscountedUtility self'
             \<and> params self' = params self)
       \<and> (3 \<le> length (annualStateCosts (params self))
            \<and> 3 \<le> length (annualStateUtilities (params self)) \<longrightarrow>
            (\<exists>self'. EE_PatientCostUtilityMonitor_update k current_state next_state self = Inr self'))
       \<and> totalDiscountedCost self
            \<le> totalDiscountedCost (MM_PatientCostUtilityMonitor_update k current_state next_state self)
       \<and> totalDiscountedUtility self
            \<le> totalDiscountedUtility (MM_PatientCostUtilityMonitor_update k current_state next_state self)"
proof -
  have r: "0 \<le> discountRate (params self) / 2"
    using assms(4) by simp
  have step: "totalDiscountedCost self \<le> totalDiscountedCost self'
      \<and> totalDiscountedUtility self \<le> totalDiscountedUtility self' \<and> params self' = params self"
    if "EE_PatientCostUtilityMonitor_update k current_state next_state self = Inr self'" for self'
  proof -
    from that obtain c u pc pu where
      c: "EE_cost (params self) current_state next_state = Inr c" and
      u: "EE_utility (params self) current_state next_state = Inr u" and
      pc: "pv_single_payment c (discountRate (params self) / 2) (2 * k + 1) = Inr pc" and
      pu: "pv_single_payment u (discountRate (params self) / 2) (2 * k + 1) = Inr pu" and
      s: "self' = self\<lparr>totalDiscountedCost := totalDiscountedCost self + pc,
                       totalDiscountedUtility := totalDiscountedUtility self + pu\<rparr>"
      unfolding EE_CU_update_Inr_iff by blast
    have "0 \<le> c" using EE_cost_nonneg [OF assms(1,3) c] .
    then have "0 \<le> pc" using pv_single_payment_nonneg [OF _ r pc] by simp
    moreover have "0 \<le> u" using EE_utility_nonneg [OF assms(2) u] .
    then have "0 \<le> pu" using pv_single_payment_nonneg [OF _ r pu] by simp
    ultimately show ?thesis using s by simp
  qed
  have ret: "\<exists>self'. EE_PatientCostUtilityMonitor_update k current_state next_state self = Inr self'"
    if "3 \<le> length (annualStateCosts (params self))
        \<and> 3 \<le> length (annualStateUtilities (params self))"
    using that r
    by (simp add: EE_PatientCostUtilityMonitor_update_def EE_cost_eq EE_utility_eq
        pv_single_payment_eq)
  have init: "totalDiscountedCost (PatientCostUtilityMonitor_init (params self)) = 0"
    "totalDiscountedUtility (PatientCostUtilityMonitor_init (params self)) = 0"
    by (simp_all add: PatientCostUtilityMonitor_init_def)
  have mm: "MM_PatientCostUtilityMonitor_update k current_state next_state self = self"
    by (simp add: MM_PatientCostUtilityMonitor_update_def)
  show ?thesis
    unfolding mm using init step ret by blast
qed

theorem C6_totals_monotone_witness:
  "list_all ((\<le>) 0) (annualStateCosts scenario)
   \<and> list_all ((\<le>) 0) (annualStateUtilities scenario)
   \<and> 0 \<le> annualTreatmentCost scenario \<and> 0 \<le> discountRate scenario
   \<and> (\<exists>self'. EE_PatientCostUtilityMonitor_update 4 WELL AIDS
                 \<lparr>params = scenario, totalDiscountedCost = 7, totalDiscountedUtility = 2\<rparr> = Inr self'
          \<and> 7 \<le> totalDiscountedCost self' \<and> 2 \<le> totalDiscountedUtility self')"
proof -
  define m where "m = \<lparr>params = scenario, totalDiscountedCost = 7, totalDiscountedUtility = 2\<rparr>"
  have p: "params m = scenario" and t: "totalDiscountedCost m = 7" "totalDiscountedUtility m = 2"
    by (simp_all add: m_def)
  have a: "\<forall>c \<in> set (annualStateCosts scenario). 0 \<le> c"
    and b: "\<forall>u \<in> set (annualStateUtilities scenario). 0 \<le> u"
    and c: "0 \<le> annualTreatmentCost scenario" and d: "0 \<le> discountRate scenario"
    and l: "3 \<le> length (annualStateCosts scenario) \<and> 3 \<le> length (annualStateUtilities scenario)"
    by (simp_all add: scenario_def)
  note th = C6_totals_monotone [of m 4 WELL AIDS, unfolded p, OF a b c d]
  from th l obtain self' where s: "EE_PatientCostUtilityMonitor_update 4 WELL AIDS m = Inr self'"
    by blast
  with th have "totalDiscountedCost m \<le> totalDiscountedCost self'
      \<and> totalDiscountedUtility m \<le> totalDiscountedUtility self'"
    by blast
  with t have "7 \<le> totalDiscountedCost self' \<and> 2 \<le> totalDiscountedUtility self'"
    by simp
  with s have "\<exists>self'. EE_PatientCostUtilityMonitor_update 4 WELL AIDS m = Inr self'
      \<and> 7 \<le> totalDiscountedCost self' \<and> 2 \<le> totalDiscountedUtility self'"
    by blast
  moreover have "list_all ((\<le>) 0) (annualStateCosts scenario)"
    "list_all ((\<le>) 0) (annualStateUtilities scenario)"
    using a b by (simp_all add: list_all_iff)
  ultimately show ?thesis
    using c d unfolding m_def by blast
qed
subsection \<open>The simulation loops\<close>

lemma first_exceeding_less:
  "ps \<noteq> [] \<Longrightarrow> first_exceeding ps acc u j < j + length ps"
  by (induction ps acc u j rule: first_exceeding.induct) auto

lemma uniform_sample_less:
  "probabilities \<noteq> [] \<Longrightarrow> fst (uniform_sample probabilities us) < length probabilities"
  using first_exceeding_less [of probabilities 0 _ 0]
  by (simp add: uniform_sample_def split: list.splits)

lemma EE_loop_returns:
  assumes "\<forall>s r. fst (g (probMatrix (Patient_params self)) (HealthStates_value s) r) < 3"
    and "valid_Parameters (params (costUtilityMonitor (stateMonitor self)))"
  shows "\<exists>k' self'. EE_Patient_simulate_loop g n k r self = Inr (k', self')"
  using assms
proof (induction g n k r self rule: EE_Patient_simulate_loop.induct)
  case (1 g n k r self)
  show ?case
  proof (cases "get_if_alive (stateMonitor self) \<and> k < n")
    case True
    obtain i r' where d: "g (probMatrix (Patient_params self))
        (HealthStates_value (currentState (stateMonitor self))) r = (i, r')"
      by (cases "g (probMatrix (Patient_params self))
        (HealthStates_value (currentState (stateMonitor self))) r")
    with "1.prems"(1) have "i < 3"
      by (metis fst_conv)
    then obtain ns where ns: "HealthStates_of_value i = Inr ns"
      using HealthStates_of_value_Inr by blast
    from EE_update_returns [OF "1.prems"(2), of k ns]
    obtain sm where sm: "EE_PatientStateMonitor_update k ns (stateMonitor self) = Inr sm"
      "params (costUtilityMonitor sm) = params (costUtilityMonitor (stateMonitor self))"
      by blast
    have "\<exists>k' self'. EE_Patient_simulate_loop g n (k + 1) r' (self\<lparr>stateMonitor := sm\<rparr>)
        = Inr (k', self')"
      using "1.IH" [OF True d [symmetric] ns sm(1)] "1.prems" sm(2) by simp
    with True d ns sm(1) show ?thesis
      by (subst EE_Patient_simulate_loop.simps) simp
  next
    case False
    then show ?thesis
      by (subst EE_Patient_simulate_loop.simps) auto
  qed
qed

lemma MM_loop_returns:
  assumes "\<forall>s r. fst (g (probMatrix (Patient_params self) ! HealthStates_value s) r) < 3"
    and "valid_Parameters (Patient_params self)"
  shows "\<exists>k' self'. MM_Patient_simulate_loop g n k self = Inr (k', self')"
  using assms
proof (induction g n k self rule: MM_Patient_simulate_loop.induct)
  case (1 g n k self)
  show ?case
  proof (cases "get_if_alive (stateMonitor self) \<and> k < n")
    case True
    let ?row = "probMatrix (Patient_params self) ! HealthStates_value (currentState (stateMonitor self))"
    have row: "getitem (probMatrix (Patient_params self))
        (HealthStates_value (currentState (stateMonitor self))) = Inr ?row"
      using "1.prems"(2) HealthStates_value_less [of "currentState (stateMonitor self)"]
      by (simp add: getitem_def valid_Parameters_def)
    obtain i r' where d: "g ?row (rng self) = (i, r')"
      by (cases "g ?row (rng self)")
    with "1.prems"(1) have "i < 3"
      by (metis fst_conv)
    then obtain ns where ns: "HealthStates_of_value i = Inr ns"
      using HealthStates_of_value_Inr by blast
    have "\<exists>k' self'. MM_Patient_simulate_loop g n (k + 1)
        (self\<lparr>rng := r', stateMonitor := MM_PatientStateMonitor_update k ns (stateMonitor self)\<rparr>)
        = Inr (k', self')"
      using "1.IH" [OF True row d [symmetric] ns] "1.prems" by simp
    with True row d ns show ?thesis
      by (subst MM_Patient_simulate_loop.simps) simp
  next
    case False
    then show ?thesis
      by (subst MM_Patient_simulate_loop.simps) auto
  qed
qed

lemma EE_loop_unfold_step:
  "EE_Patient_simulate_loop g n k r self =
     (if get_if_alive (stateMonitor self) \<and> k < n then
        (case EE_Patient_simulate_step g k (r, self) of
           Inl e \<Rightarrow> Inl e
         | Inr (r', self') \<Rightarrow> EE_Patient_simulate_loop g n (k + 1) r' self')
      else Inr (k, self))"
  by (subst EE_Patient_simulate_loop.simps)
     (simp add: EE_Patient_simulate_step_def split: prod.splits sum.splits)

lemma MM_loop_unfold_step:
  "MM_Patient_simulate_loop g n k self =
     (if get_if_alive (stateMonitor self) \<and> k < n then
        (case MM_Patient_simulate_step g k self of
           Inl e \<Rightarrow> Inl e
         | Inr self' \<Rightarrow> MM_Patient_simulate_loop g n (k + 1) self')
      else Inr (k, self))"
  by (subst MM_Patient_simulate_loop.simps)
     (simp add: MM_Patient_simulate_step_def split: prod.splits sum.splits)

text \<open>
  The loop entered at the counter \<open>k\<close> with the state that \<open>k\<close> runs of the body have
  left: it runs the body up to its exit, each time on a living patient.
\<close>

lemma EE_loop_steps:
  assumes "EE_Patient_simulate_loop g n k r self = Inr (k', self')"
    and "EE_Patient_simulate_steps g (nat k) s0 = Inr (r, self)"
    and "0 \<le> k" and "k \<le> n"
  shows "k \<le> k' \<and> k' \<le> n
       \<and> (\<exists>r'. EE_Patient_simulate_steps g (nat k') s0 = Inr (r', self'))
       \<and> (\<forall>j. nat k \<le> j \<and> j < nat k' \<longrightarrow>
             (\<exists>r s. EE_Patient_simulate_steps g j s0 = Inr (r, s)
                    \<and> currentState (stateMonitor s) \<noteq> HIV_DEATH))
       \<and> (currentState (stateMonitor self') \<noteq> HIV_DEATH \<longrightarrow> k' = n)"
  using assms
proof (induction g n k r self rule: EE_Patient_simulate_loop.induct)
  case (1 g n k r self)
  show ?case
  proof (cases "get_if_alive (stateMonitor self) \<and> k < n")
    case True
    from "1.prems"(1) True obtain r1 self1 where
      st: "EE_Patient_simulate_step g k (r, self) = Inr (r1, self1)" and
      rec: "EE_Patient_simulate_loop g n (k + 1) r1 self1 = Inr (k', self')"
      by (subst (asm) EE_loop_unfold_step) (auto split: sum.splits)
    from st obtain i ns sm where
      d: "g (probMatrix (Patient_params self))
            (HealthStates_value (currentState (stateMonitor self))) r = (i, r1)" and
      ns: "HealthStates_of_value i = Inr ns" and
      sm: "EE_PatientStateMonitor_update k ns (stateMonitor self) = Inr sm" and
      s1: "self1 = self\<lparr>stateMonitor := sm\<rparr>"
      by (auto simp: EE_Patient_simulate_step_def split: prod.splits sum.splits)
    have nk: "nat (k + 1) = Suc (nat k)"
      using "1.prems"(3) by simp
    have steps1: "EE_Patient_simulate_steps g (nat (k + 1)) s0 = Inr (r1, self\<lparr>stateMonitor := sm\<rparr>)"
      using "1.prems"(2,3) st s1 by (simp add: nk)
    have ih: "k + 1 \<le> k' \<and> k' \<le> n
       \<and> (\<exists>r'. EE_Patient_simulate_steps g (nat k') s0 = Inr (r', self'))
       \<and> (\<forall>j. nat (k + 1) \<le> j \<and> j < nat k' \<longrightarrow>
             (\<exists>r s. EE_Patient_simulate_steps g j s0 = Inr (r, s)
                    \<and> currentState (stateMonitor s) \<noteq> HIV_DEATH))
       \<and> (currentState (stateMonitor self') \<noteq> HIV_DEATH \<longrightarrow> k' = n)"
      using "1.IH" [OF True d [symmetric] ns sm _ steps1] rec s1 "1.prems"(3) True by simp
    have here: "\<exists>r s. EE_Patient_simulate_steps g (nat k) s0 = Inr (r, s)
        \<and> currentState (stateMonitor s) \<noteq> HIV_DEATH"
      using "1.prems"(2) True by (auto simp: get_if_alive_def)
    have "\<exists>r s. EE_Patient_simulate_steps g j s0 = Inr (r, s)
        \<and> currentState (stateMonitor s) \<noteq> HIV_DEATH"
      if "nat k \<le> j \<and> j < nat k'" for j
    proof (cases "j = nat k")
      case True
      with here show ?thesis by simp
    next
      case False
      with that have "nat (k + 1) \<le> j \<and> j < nat k'"
        using nk by simp
      with ih show ?thesis by blast
    qed
    with ih show ?thesis by auto
  next
    case False
    with "1.prems"(1) have "k' = k" "self' = self"
      by (subst (asm) EE_Patient_simulate_loop.simps, auto)+
    with False "1.prems"(2,4) show ?thesis
      by (auto simp: get_if_alive_def)
  qed
qed

lemma MM_loop_steps:
  assumes "MM_Patient_simulate_loop g n k self = Inr (k', self')"
    and "MM_Patient_simulate_steps g (nat k) s0 = Inr self"
    and "0 \<le> k" and "k \<le> n"
  shows "k \<le> k' \<and> k' \<le> n
       \<and> MM_Patient_simulate_steps g (nat k') s0 = Inr self'
       \<and> (\<forall>j. nat k \<le> j \<and> j < nat k' \<longrightarrow>
             (\<exists>s. MM_Patient_simulate_steps g j s0 = Inr s
                  \<and> currentState (stateMonitor s) \<noteq> HIV_DEATH))
       \<and> (currentState (stateMonitor self') \<noteq> HIV_DEATH \<longrightarrow> k' = n)"
  using assms
proof (induction g n k self rule: MM_Patient_simulate_loop.induct)
  case (1 g n k self)
  show ?case
  proof (cases "get_if_alive (stateMonitor self) \<and> k < n")
    case True
    from "1.prems"(1) True obtain self1 where
      st: "MM_Patient_simulate_step g k self = Inr self1" and
      rec: "MM_Patient_simulate_loop g n (k + 1) self1 = Inr (k', self')"
      by (subst (asm) MM_loop_unfold_step) (auto split: sum.splits)
    from st obtain row i r1 ns where
      row: "getitem (probMatrix (Patient_params self))
              (HealthStates_value (currentState (stateMonitor self))) = Inr row" and
      d: "g row (rng self) = (i, r1)" and
      ns: "HealthStates_of_value i = Inr ns" and
      s1: "self1 = self\<lparr>rng := r1, stateMonitor :=
             MM_PatientStateMonitor_update k ns (stateMonitor self)\<rparr>"
      by (auto simp: MM_Patient_simulate_step_def split: prod.splits sum.splits)
    have nk: "nat (k + 1) = Suc (nat k)"
      using "1.prems"(3) by simp
    have steps1: "MM_Patient_simulate_steps g (nat (k + 1)) s0 =
        Inr (self\<lparr>rng := r1, stateMonitor :=
               MM_PatientStateMonitor_update k ns (stateMonitor self)\<rparr>)"
      using "1.prems"(2,3) st s1 by (simp add: nk)
    have ih: "k + 1 \<le> k' \<and> k' \<le> n
       \<and> MM_Patient_simulate_steps g (nat k') s0 = Inr self'
       \<and> (\<forall>j. nat (k + 1) \<le> j \<and> j < nat k' \<longrightarrow>
             (\<exists>s. MM_Patient_simulate_steps g j s0 = Inr s
                  \<and> currentState (stateMonitor s) \<noteq> HIV_DEATH))
       \<and> (currentState (stateMonitor self') \<noteq> HIV_DEATH \<longrightarrow> k' = n)"
      using "1.IH" [OF True row d [symmetric] ns _ steps1] rec s1 "1.prems"(3) True by simp
    have here: "\<exists>s. MM_Patient_simulate_steps g (nat k) s0 = Inr s
        \<and> currentState (stateMonitor s) \<noteq> HIV_DEATH"
      using "1.prems"(2) True by (auto simp: get_if_alive_def)
    have "\<exists>s. MM_Patient_simulate_steps g j s0 = Inr s
        \<and> currentState (stateMonitor s) \<noteq> HIV_DEATH"
      if "nat k \<le> j \<and> j < nat k'" for j
    proof (cases "j = nat k")
      case True
      with here show ?thesis by simp
    next
      case False
      with that have "nat (k + 1) \<le> j \<and> j < nat k'"
        using nk by simp
      with ih show ?thesis by blast
    qed
    with ih show ?thesis by auto
  next
    case False
    with "1.prems"(1) have "k' = k" "self' = self"
      by (subst (asm) MM_Patient_simulate_loop.simps, auto)+
    with False "1.prems"(2,4) show ?thesis
      by (auto simp: get_if_alive_def)
  qed
qed

text \<open>
  C7. \<^verbatim>\<open>Patient.simulate\<close> is a total function of the model (the loops are defined
  with a measure that decreases, \<open>n_time_steps - k\<close>). With a positive
  \<^verbatim>\<open>n_time_steps\<close>, when it returns with the counter \<open>k\<close>: \<open>k\<close> is at most
  \<^verbatim>\<open>n_time_steps\<close>; the patient is what \<open>k\<close> runs of the loop's body, at the steps
  \<open>0, ..., k - 1\<close>, have made of the patient it started from; each of these runs was
  on a living patient; and either the patient is in the death state, or \<open>k\<close> is
  \<^verbatim>\<open>n_time_steps\<close> and the patient is not in the death state, one of the two and not
  both. It returns (no exception) when the sampler draws indices of states and the
  parameters are valid.
\<close>

theorem C7_simulate_terminates:
  assumes "0 < n_time_steps"
  shows "(\<forall>k p'. EE_Patient_simulate RandomState get_next_state p n_time_steps = Inr (k, p') \<longrightarrow>
            0 \<le> k \<and> k \<le> n_time_steps
            \<and> (\<exists>r'. EE_Patient_simulate_steps get_next_state (nat k)
                       (RandomState (Patient_id p), p) = Inr (r', p'))
            \<and> (\<forall>j < nat k. \<exists>r s. EE_Patient_simulate_steps get_next_state j
                       (RandomState (Patient_id p), p) = Inr (r, s)
                     \<and> currentState (stateMonitor s) \<noteq> HIV_DEATH)
            \<and> ((currentState (stateMonitor p') = HIV_DEATH)
                 \<noteq> (k = n_time_steps \<and> currentState (stateMonitor p') \<noteq> HIV_DEATH)))
       \<and> ((\<forall>s r. fst (get_next_state (probMatrix (Patient_params p)) (HealthStates_value s) r) < 3)
            \<and> valid_Parameters (params (costUtilityMonitor (stateMonitor p))) \<longrightarrow>
            (\<exists>k p'. EE_Patient_simulate RandomState get_next_state p n_time_steps = Inr (k, p')))
       \<and> (\<forall>k q'. MM_Patient_simulate Empirical_sample q n_time_steps = Inr (k, q') \<longrightarrow>
            0 \<le> k \<and> k \<le> n_time_steps
            \<and> MM_Patient_simulate_steps Empirical_sample (nat k) q = Inr q'
            \<and> (\<forall>j < nat k. \<exists>s. MM_Patient_simulate_steps Empirical_sample j q = Inr s
                     \<and> currentState (stateMonitor s) \<noteq> HIV_DEATH)
            \<and> ((currentState (stateMonitor q') = HIV_DEATH)
                 \<noteq> (k = n_time_steps \<and> currentState (stateMonitor q') \<noteq> HIV_DEATH)))
       \<and> ((\<forall>s r. fst (Empirical_sample (probMatrix (Patient_params q) ! HealthStates_value s) r) < 3)
            \<and> valid_Parameters (Patient_params q) \<longrightarrow>
            (\<exists>k q'. MM_Patient_simulate Empirical_sample q n_time_steps = Inr (k, q')))"
proof -
  have e1: "0 \<le> k \<and> k \<le> n_time_steps
      \<and> (\<exists>r'. EE_Patient_simulate_steps get_next_state (nat k)
                 (RandomState (Patient_id p), p) = Inr (r', p'))
      \<and> (\<forall>j < nat k. \<exists>r s. EE_Patient_simulate_steps get_next_state j
                 (RandomState (Patient_id p), p) = Inr (r, s)
               \<and> currentState (stateMonitor s) \<noteq> HIV_DEATH)
      \<and> ((currentState (stateMonitor p') = HIV_DEATH)
           \<noteq> (k = n_time_steps \<and> currentState (stateMonitor p') \<noteq> HIV_DEATH))"
    if "EE_Patient_simulate RandomState get_next_state p n_time_steps = Inr (k, p')" for k p'
  proof -
    from that have l: "EE_Patient_simulate_loop get_next_state n_time_steps 0
        (RandomState (Patient_id p)) p = Inr (k, p')"
      by (simp add: EE_Patient_simulate_def)
    have z: "EE_Patient_simulate_steps get_next_state (nat 0) (RandomState (Patient_id p), p)
        = Inr (RandomState (Patient_id p), p)"
      by simp
    from EE_loop_steps [OF l z] assms show ?thesis
      by auto
  qed
  have e2: "\<exists>k p'. EE_Patient_simulate RandomState get_next_state p n_time_steps = Inr (k, p')"
    if "(\<forall>s r. fst (get_next_state (probMatrix (Patient_params p)) (HealthStates_value s) r) < 3)
      \<and> valid_Parameters (params (costUtilityMonitor (stateMonitor p)))"
  proof -
    from that
    have a: "\<forall>s r. fst (get_next_state (probMatrix (Patient_params p)) (HealthStates_value s) r) < 3"
      and b: "valid_Parameters (params (costUtilityMonitor (stateMonitor p)))"
      by simp_all
    show ?thesis
      unfolding EE_Patient_simulate_def
      by (rule EE_loop_returns [where g = get_next_state and self = p, OF a b])
  qed
  have m1: "0 \<le> k \<and> k \<le> n_time_steps
      \<and> MM_Patient_simulate_steps Empirical_sample (nat k) q = Inr q'
      \<and> (\<forall>j < nat k. \<exists>s. MM_Patient_simulate_steps Empirical_sample j q = Inr s
               \<and> currentState (stateMonitor s) \<noteq> HIV_DEATH)
      \<and> ((currentState (stateMonitor q') = HIV_DEATH)
           \<noteq> (k = n_time_steps \<and> currentState (stateMonitor q') \<noteq> HIV_DEATH))"
    if "MM_Patient_simulate Empirical_sample q n_time_steps = Inr (k, q')" for k q'
  proof -
    from that have l: "MM_Patient_simulate_loop Empirical_sample n_time_steps 0 q = Inr (k, q')"
      by (simp add: MM_Patient_simulate_def)
    have z: "MM_Patient_simulate_steps Empirical_sample (nat 0) q = Inr q"
      by simp
    from MM_loop_steps [OF l z] assms show ?thesis
      by auto
  qed
  have m2: "\<exists>k q'. MM_Patient_simulate Empirical_sample q n_time_steps = Inr (k, q')"
    if "(\<forall>s r. fst (Empirical_sample (probMatrix (Patient_params q) ! HealthStates_value s) r) < 3)
      \<and> valid_Parameters (Patient_params q)"
  proof -
    from that
    have a: "\<forall>s r. fst (Empirical_sample (probMatrix (Patient_params q) ! HealthStates_value s) r) < 3"
      and b: "valid_Parameters (Patient_params q)"
      by simp_all
    show ?thesis
      unfolding MM_Patient_simulate_def
      by (rule MM_loop_returns [where g = Empirical_sample and self = q, OF a b])
  qed
  from e1 e2 m1 m2 show ?thesis
    by blast
qed

lemma uniform_get_next_state_scenario:
  "fst (uniform_get_next_state (probMatrix scenario) (HealthStates_value s) r) < 3"
proof -
  have "probMatrix scenario ! HealthStates_value s \<noteq> []
      \<and> length (probMatrix scenario ! HealthStates_value s) = 3"
    by (cases s) (simp_all add: scenario_def)
  with uniform_sample_less [of "probMatrix scenario ! HealthStates_value s" r]
  have "fst (uniform_sample (probMatrix scenario ! HealthStates_value s) r) < 3"
    by simp
  moreover have "HealthStates_value s < length (probMatrix scenario)"
    using HealthStates_value_less [of s] by (simp add: scenario_def)
  ultimately show ?thesis
    by (simp add: uniform_get_next_state_def)
qed

lemma uniform_sample_scenario:
  "fst (uniform_sample (probMatrix scenario ! HealthStates_value s) r) < 3"
proof -
  have "probMatrix scenario ! HealthStates_value s \<noteq> []
      \<and> length (probMatrix scenario ! HealthStates_value s) = 3"
    by (cases s) (simp_all add: scenario_def)
  with uniform_sample_less [of "probMatrix scenario ! HealthStates_value s" r]
  show ?thesis
    by simp
qed

theorem C7_simulate_terminates_witness:
  "(0 :: int) < 10
   \<and> (\<exists>k p'. EE_Patient_simulate (draws [0.95, 0.5, 0.99]) uniform_get_next_state
                (EE_Patient_init 7 scenario) 10 = Inr (k, p')
          \<and> (\<exists>r'. EE_Patient_simulate_steps uniform_get_next_state (nat k)
                     (draws [0.95, 0.5, 0.99] (Patient_id (EE_Patient_init 7 scenario)),
                      EE_Patient_init 7 scenario) = Inr (r', p'))
          \<and> ((currentState (stateMonitor p') = HIV_DEATH)
               \<noteq> (k = 10 \<and> currentState (stateMonitor p') \<noteq> HIV_DEATH)))
   \<and> (\<exists>k q'. MM_Patient_simulate uniform_sample
                (MM_Patient_init (draws [0.95, 0.5, 0.99]) 7 scenario) 10 = Inr (k, q')
          \<and> MM_Patient_simulate_steps uniform_sample (nat k)
               (MM_Patient_init (draws [0.95, 0.5, 0.99]) 7 scenario) = Inr q'
          \<and> ((currentState (stateMonitor q') = HIV_DEATH)
               \<noteq> (k = 10 \<and> currentState (stateMonitor q') \<noteq> HIV_DEATH)))"
proof -
  define p where "p = EE_Patient_init 7 scenario"
  define q where "q = MM_Patient_init (draws [0.95, 0.5, 0.99]) 7 scenario"
  have n: "(0 :: int) < 10" by simp
  have pp: "Patient_params p = scenario" "params (costUtilityMonitor (stateMonitor p)) = scenario"
    by (simp_all add: p_def EE_Patient_init_def EE_PatientStateMonitor_init_def
        PatientCostUtilityMonitor_init_def)
  have qq: "Patient_params q = scenario"
    by (simp add: q_def MM_Patient_init_def)
  note th = C7_simulate_terminates [OF n, of "draws [0.95, 0.5, 0.99]"
      uniform_get_next_state p uniform_sample q, unfolded pp qq]
  note e1 = th [THEN conjunct1, rule_format]
  note e2 = th [THEN conjunct2, THEN conjunct1, rule_format]
  note m1 = th [THEN conjunct2, THEN conjunct2, THEN conjunct1, rule_format]
  note m2 = th [THEN conjunct2, THEN conjunct2, THEN conjunct2, rule_format]
  have "\<exists>k p'. EE_Patient_simulate (draws [0.95, 0.5, 0.99]) uniform_get_next_state
      p 10 = Inr (k, p')"
    by (rule e2) (simp add: uniform_get_next_state_scenario valid_Parameters_scenario)
  then obtain k p' where e: "EE_Patient_simulate (draws [0.95, 0.5, 0.99]) uniform_get_next_state
      p 10 = Inr (k, p')"
    by blast
  have "\<exists>j q'. MM_Patient_simulate uniform_sample q 10 = Inr (j, q')"
    by (rule m2) (simp add: uniform_sample_scenario valid_Parameters_scenario)
  then obtain j q' where m: "MM_Patient_simulate uniform_sample q 10 = Inr (j, q')"
    by blast
  from e1 [OF e] have e': "(\<exists>r'. EE_Patient_simulate_steps uniform_get_next_state (nat k)
        (draws [0.95, 0.5, 0.99] (Patient_id p), p) = Inr (r', p'))
      \<and> ((currentState (stateMonitor p') = HIV_DEATH)
           \<noteq> (k = 10 \<and> currentState (stateMonitor p') \<noteq> HIV_DEATH))"
    by simp
  from m1 [OF m] have m': "MM_Patient_simulate_steps uniform_sample (nat j) q = Inr q'
      \<and> ((currentState (stateMonitor q') = HIV_DEATH)
           \<noteq> (j = 10 \<and> currentState (stateMonitor q') \<noteq> HIV_DEATH))"
    by simp
  from e e' have "\<exists>k p'. EE_Patient_simulate (draws [0.95, 0.5, 0.99]) uniform_get_next_state
      p 10 = Inr (k, p')
      \<and> (\<exists>r'. EE_Patient_simulate_steps uniform_get_next_state (nat k)
                 (draws [0.95, 0.5, 0.99] (Patient_id p), p) = Inr (r', p'))
      \<and> ((currentState (stateMonitor p') = HIV_DEATH)
           \<noteq> (k = 10 \<and> currentState (stateMonitor p') \<noteq> HIV_DEATH))"
    by blast
  moreover from m m' have "\<exists>k q'. MM_Patient_simulate uniform_sample q 10 = Inr (k, q')
      \<and> MM_Patient_simulate_steps uniform_sample (nat k) q = Inr q'
      \<and> ((currentState (stateMonitor q') = HIV_DEATH)
           \<noteq> (k = 10 \<and> currentState (stateMonitor q') \<noteq> HIV_DEATH))"
    by blast
  ultimately show ?thesis
    using n unfolding p_def q_def by simp
qed

subsection \<open>Cohorts\<close>

lemma MM_simulate_all_returns:
  assumes "\<forall>p \<in> set ps.
      (\<forall>s r. fst (g (probMatrix (Patient_params p) ! HealthStates_value s) r) < 3)
      \<and> valid_Parameters (Patient_params p)"
  shows "\<exists>ps'. MM_simulate_all g n ps = Inr ps'"
  using assms
proof (induction ps)
  case Nil
  then show ?case by simp
next
  case (Cons a ps)
  then have "\<forall>s r. fst (g (probMatrix (Patient_params a) ! HealthStates_value s) r) < 3"
    and "valid_Parameters (Patient_params a)"
    by simp_all
  from MM_loop_returns [where g = g and self = a, OF this]
  obtain k a' where "MM_Patient_simulate g a n = Inr (k, a')"
    unfolding MM_Patient_simulate_def by blast
  moreover from Cons obtain ps' where "MM_simulate_all g n ps = Inr ps'"
    by auto
  ultimately show ?case by simp
qed

text \<open>
  C9. The claim: the ids of a cohort's patients are \<^verbatim>\<open>cohortId * popSize + i\<close> for
  \<open>i\<close> in \<open>[0, popSize)\<close>, and with distinct cohort ids that are not negative they
  are unique across all cohorts. The second part fails for cohorts of different
  sizes: the cohort 0 of two patients and the cohort 1 of one patient both hold a
  patient of the id 1.
\<close>

theorem C9_ids_collide:
  "Cohort_id (EE_Cohort_init 0 2 scenario) \<noteq> Cohort_id (EE_Cohort_init 1 1 scenario)
   \<and> 0 \<le> Cohort_id (EE_Cohort_init 0 2 scenario)
   \<and> 0 \<le> Cohort_id (EE_Cohort_init 1 1 scenario)
   \<and> map Patient_id (EE_Cohort_populate (EE_Cohort_init 0 2 scenario)) = [0, 1]
   \<and> map Patient_id (EE_Cohort_populate (EE_Cohort_init 1 1 scenario)) = [1]
   \<and> map Patient_id (patients (MM_Cohort_init (draws []) 0 2 scenario)) = [0, 1]
   \<and> map Patient_id (patients (MM_Cohort_init (draws []) 1 1 scenario)) = [1]"
  by (simp add: EE_Cohort_populate_def EE_Cohort_init_def EE_Patient_init_def
      MM_Cohort_init_def MM_Patient_init_def upto_rec1)

lemma ids_disjoint:
  fixes a b p :: int
  assumes "a \<noteq> b"
  shows "set (map (\<lambda>i. a * p + i) [0..p - 1]) \<inter> set (map (\<lambda>i. b * p + i) [0..p - 1]) = {}"
proof (rule ccontr)
  assume "\<not> ?thesis"
  then obtain x where "x \<in> set (map (\<lambda>i. a * p + i) [0..p - 1])"
    and "x \<in> set (map (\<lambda>i. b * p + i) [0..p - 1])"
    by blast
  then have xa: "a * p \<le> x" "x \<le> p - 1 + a * p" and xb: "b * p \<le> x" "x \<le> p - 1 + b * p"
    by auto
  define i where "i = x - a * p"
  define j where "j = x - b * p"
  from xa have i: "0 \<le> i" "i < p" by (simp_all add: i_def)
  from xb have j: "0 \<le> j" "j < p" by (simp_all add: j_def)
  have e: "a * p + i = b * p + j"
    by (simp add: i_def j_def)
  from i have "(a * p + i) div p = a"
    by simp
  moreover from j have "(b * p + j) div p = b"
    by simp
  ultimately show False
    using e assms by simp
qed

text \<open>
  C9 as amended: a cohort constructs \<^verbatim>\<open>popSize\<close> patients, whose ids are
  \<^verbatim>\<open>cohortId * popSize + i\<close> for \<open>i\<close> in \<open>[0, popSize)\<close>, in this order and distinct;
  cohorts of distinct ids and of the same size share no patient id.
\<close>

theorem C9_patient_ids:
  "map Patient_id (EE_Cohort_populate c) = map (\<lambda>i. Cohort_id c * popSize c + i) [0..popSize c - 1]
   \<and> length (EE_Cohort_populate c) = nat (popSize c)
   \<and> distinct (map Patient_id (EE_Cohort_populate c))
   \<and> map Patient_id (patients (MM_Cohort_init RNG ident pop_size ps))
        = map (\<lambda>i. ident * pop_size + i) [0..pop_size - 1]
   \<and> length (patients (MM_Cohort_init RNG ident pop_size ps)) = nat pop_size
   \<and> distinct (map Patient_id (patients (MM_Cohort_init RNG ident pop_size ps)))
   \<and> (Cohort_id c \<noteq> Cohort_id c' \<and> popSize c = popSize c' \<longrightarrow>
        set (map Patient_id (EE_Cohort_populate c))
          \<inter> set (map Patient_id (EE_Cohort_populate c')) = {})
   \<and> (ident \<noteq> ident' \<longrightarrow>
        set (map Patient_id (patients (MM_Cohort_init RNG ident pop_size ps)))
          \<inter> set (map Patient_id (patients (MM_Cohort_init RNG' ident' pop_size ps'))) = {})"
proof -
  have e: "map Patient_id (EE_Cohort_populate c) = map (\<lambda>i. Cohort_id c * popSize c + i) [0..popSize c - 1]"
    for c
    by (simp add: EE_Cohort_populate_def EE_Patient_init_def comp_def)
  have m: "map Patient_id (patients (MM_Cohort_init RNG ident pop_size ps))
      = map (\<lambda>i. ident * pop_size + i) [0..pop_size - 1]" for RNG :: "int \<Rightarrow> 'x" and ident pop_size ps
    by (simp add: MM_Cohort_init_def MM_Patient_init_def comp_def)
  have d: "distinct (map (\<lambda>i. a * p + i) [0..p - 1])" for a p :: int
    by (simp add: distinct_map inj_on_def)
  have "length (EE_Cohort_populate c) = nat (popSize c)"
    by (simp add: EE_Cohort_populate_def)
  moreover have "length (patients (MM_Cohort_init RNG ident pop_size ps)) = nat pop_size"
    by (simp add: MM_Cohort_init_def)
  moreover have "Cohort_id c \<noteq> Cohort_id c' \<and> popSize c = popSize c' \<longrightarrow>
        set (map Patient_id (EE_Cohort_populate c))
          \<inter> set (map Patient_id (EE_Cohort_populate c')) = {}"
    unfolding e using ids_disjoint [of "Cohort_id c" "Cohort_id c'" "popSize c'"] by simp
  moreover have "ident \<noteq> ident' \<longrightarrow>
        set (map Patient_id (patients (MM_Cohort_init RNG ident pop_size ps)))
          \<inter> set (map Patient_id (patients (MM_Cohort_init RNG' ident' pop_size ps'))) = {}"
    unfolding m using ids_disjoint [of ident ident' pop_size] by simp
  ultimately show ?thesis
    using e [of c] m [of RNG ident pop_size ps] d by simp
qed

theorem C9_patient_ids_witness:
  "Cohort_id (EE_Cohort_init 0 2 scenario) \<noteq> Cohort_id (EE_Cohort_init 1 2 scenario)
   \<and> popSize (EE_Cohort_init 0 2 scenario) = popSize (EE_Cohort_init 1 2 scenario)
   \<and> (0 :: int) \<noteq> 1
   \<and> set (map Patient_id (EE_Cohort_populate (EE_Cohort_init 0 2 scenario)))
        \<inter> set (map Patient_id (EE_Cohort_populate (EE_Cohort_init 1 2 scenario))) = {}
   \<and> set (map Patient_id (patients (MM_Cohort_init (draws []) 0 2 scenario)))
        \<inter> set (map Patient_id (patients (MM_Cohort_init (draws []) 1 2 scenario))) = {}"
proof -
  have a: "Cohort_id (EE_Cohort_init 0 2 scenario) \<noteq> Cohort_id (EE_Cohort_init 1 2 scenario)"
    and b: "popSize (EE_Cohort_init 0 2 scenario) = popSize (EE_Cohort_init 1 2 scenario)"
    by (simp_all add: EE_Cohort_init_def)
  have c: "(0 :: int) \<noteq> 1" by simp
  note th = C9_patient_ids [of "EE_Cohort_init 0 2 scenario" "draws []" 0 2 scenario
      "EE_Cohort_init 1 2 scenario" 1 "draws []" scenario]
  from th a b have "set (map Patient_id (EE_Cohort_populate (EE_Cohort_init 0 2 scenario)))
        \<inter> set (map Patient_id (EE_Cohort_populate (EE_Cohort_init 1 2 scenario))) = {}"
    by blast
  moreover from th c have "set (map Patient_id (patients (MM_Cohort_init (draws []) 0 2 scenario)))
        \<inter> set (map Patient_id (patients (MM_Cohort_init (draws []) 1 2 scenario))) = {}"
    by blast
  ultimately show ?thesis
    using a b c by blast
qed

subsection \<open>The flag of MarkovModelClasses\<close>

lemma MM_update_flag:
  assumes "ifDevelopedAIDS m \<longleftrightarrow> timeToAIDS m \<noteq> None"
  shows "ifDevelopedAIDS (MM_PatientStateMonitor_update k ns m)
           \<longleftrightarrow> timeToAIDS (MM_PatientStateMonitor_update k ns m) \<noteq> None"
proof (cases "currentState m = HIV_DEATH")
  case True
  with assms show ?thesis by (simp add: MM_update_after_death)
next
  case False
  with assms show ?thesis by (simp add: MM_update_alive)
qed

lemma MM_loop_flag:
  "MM_Patient_simulate_loop g n k self = Inr (k', self') \<Longrightarrow>
   (ifDevelopedAIDS (stateMonitor self) \<longleftrightarrow> timeToAIDS (stateMonitor self) \<noteq> None) \<Longrightarrow>
   (ifDevelopedAIDS (stateMonitor self') \<longleftrightarrow> timeToAIDS (stateMonitor self') \<noteq> None)"
proof (induction g n k self rule: MM_Patient_simulate_loop.induct)
  case (1 g n k self)
  show ?case
  proof (cases "get_if_alive (stateMonitor self) \<and> k < n")
    case True
    from "1.prems"(1) True obtain row i r' ns where
      row: "getitem (probMatrix (Patient_params self))
              (HealthStates_value (currentState (stateMonitor self))) = Inr row" and
      d: "g row (rng self) = (i, r')" and
      ns: "HealthStates_of_value i = Inr ns" and
      rec: "MM_Patient_simulate_loop g n (k + 1)
              (self\<lparr>rng := r', stateMonitor :=
                 MM_PatientStateMonitor_update k ns (stateMonitor self)\<rparr>) = Inr (k', self')"
      by (subst (asm) MM_Patient_simulate_loop.simps) (auto split: prod.splits sum.splits)
    from "1.IH" [OF True row d [symmetric] ns rec] MM_update_flag [OF "1.prems"(2), of k ns]
    show ?thesis by simp
  next
    case False
    with "1.prems" show ?thesis
      by (subst (asm) MM_Patient_simulate_loop.simps) auto
  qed
qed

lemma MM_simulate_all_flag:
  "MM_simulate_all g n ps = Inr ps' \<Longrightarrow>
   \<forall>p \<in> set ps. ifDevelopedAIDS (stateMonitor p) \<longleftrightarrow> timeToAIDS (stateMonitor p) \<noteq> None \<Longrightarrow>
   \<forall>p \<in> set ps'. ifDevelopedAIDS (stateMonitor p) \<longleftrightarrow> timeToAIDS (stateMonitor p) \<noteq> None"
proof (induction ps arbitrary: ps')
  case Nil
  then show ?case by simp
next
  case (Cons a ps)
  from Cons.prems(1) obtain k a' qs where
    a: "MM_Patient_simulate g a n = Inr (k, a')" and
    qs: "MM_simulate_all g n ps = Inr qs" and
    ps': "ps' = a' # qs"
    by (auto split: sum.splits)
  from a Cons.prems(2)
  have "ifDevelopedAIDS (stateMonitor a') \<longleftrightarrow> timeToAIDS (stateMonitor a') \<noteq> None"
    unfolding MM_Patient_simulate_def using MM_loop_flag [of g n 0 a k a'] by simp
  moreover from Cons.IH [OF qs] Cons.prems(2)
  have "\<forall>p \<in> set qs. ifDevelopedAIDS (stateMonitor p) \<longleftrightarrow> timeToAIDS (stateMonitor p) \<noteq> None"
    by simp
  ultimately show ?case
    using ps' by simp
qed

lemma MM_extract_outcomes_no_None:
  "\<forall>p \<in> set ps. ifDevelopedAIDS (stateMonitor p) \<longleftrightarrow> timeToAIDS (stateMonitor p) \<noteq> None \<Longrightarrow>
   None \<notin> set (timesToAIDS co) \<Longrightarrow>
   None \<notin> set (timesToAIDS (MM_CohortOutcomes_extract_outcomes ps co))"
proof (induction ps arbitrary: co)
  case Nil
  then show ?case by simp
next
  case (Cons a ps)
  show ?case
    unfolding MM_CohortOutcomes_extract_outcomes.simps Let_def
    by (rule Cons.IH) (use Cons.prems in \<open>auto split: option.splits\<close>)
qed

text \<open>
  C10. In \<^verbatim>\<open>MarkovModelClasses\<close>, \<^verbatim>\<open>ifDevelopedAIDS\<close> is true exactly when
  \<^verbatim>\<open>timeToAIDS\<close> is not \<^verbatim>\<open>None\<close>: at construction and, when it holds before an update,
  after it. So the patients of a simulated cohort have it, and the list
  \<^verbatim>\<open>timesToAIDS\<close> that \<^verbatim>\<open>extract_outcomes\<close> fills has no \<^verbatim>\<open>None\<close>. The simulation
  of the cohort returns when the sampler draws indices of states and the parameters
  are valid.
\<close>

theorem C10_ifDevelopedAIDS_iff_timeToAIDS:
  "(ifDevelopedAIDS (MM_PatientStateMonitor_init ps)
      \<longleftrightarrow> timeToAIDS (MM_PatientStateMonitor_init ps) \<noteq> None)
   \<and> ((ifDevelopedAIDS m \<longleftrightarrow> timeToAIDS m \<noteq> None) \<longrightarrow>
        (ifDevelopedAIDS (MM_PatientStateMonitor_update time_step new_state m)
           \<longleftrightarrow> timeToAIDS (MM_PatientStateMonitor_update time_step new_state m) \<noteq> None))
   \<and> (\<forall>c'. MM_Cohort_simulate Empirical_sample (MM_Cohort_init RNG ident pop_size ps) n_time_steps
               = Inr c' \<longrightarrow>
          None \<notin> set (timesToAIDS (cohortOutcomes c'))
          \<and> (\<forall>p \<in> set (patients c').
                ifDevelopedAIDS (stateMonitor p) \<longleftrightarrow> timeToAIDS (stateMonitor p) \<noteq> None))
   \<and> ((\<forall>s r. fst (Empirical_sample (probMatrix ps ! HealthStates_value s) r) < 3)
        \<and> valid_Parameters ps \<longrightarrow>
        (\<exists>c'. MM_Cohort_simulate Empirical_sample (MM_Cohort_init RNG ident pop_size ps) n_time_steps
                = Inr c'))"
proof -
  have c1: "ifDevelopedAIDS (MM_PatientStateMonitor_init ps)
      \<longleftrightarrow> timeToAIDS (MM_PatientStateMonitor_init ps) \<noteq> None"
    by (simp add: MM_PatientStateMonitor_init_def)
  have c2: "(ifDevelopedAIDS m \<longleftrightarrow> timeToAIDS m \<noteq> None) \<longrightarrow>
      (ifDevelopedAIDS (MM_PatientStateMonitor_update time_step new_state m)
         \<longleftrightarrow> timeToAIDS (MM_PatientStateMonitor_update time_step new_state m) \<noteq> None)"
    using MM_update_flag by blast
  have c3: "None \<notin> set (timesToAIDS (cohortOutcomes c'))
      \<and> (\<forall>p \<in> set (patients c').
            ifDevelopedAIDS (stateMonitor p) \<longleftrightarrow> timeToAIDS (stateMonitor p) \<noteq> None)"
    if s: "MM_Cohort_simulate Empirical_sample (MM_Cohort_init RNG ident pop_size ps) n_time_steps
      = Inr c'" for c'
  proof -
    let ?c = "MM_Cohort_init RNG ident pop_size ps"
    from s obtain ps' where
      all: "MM_simulate_all Empirical_sample n_time_steps (patients ?c) = Inr ps'" and
      c': "c' = ?c\<lparr>patients := ps',
                   cohortOutcomes := MM_CohortOutcomes_extract_outcomes ps' (cohortOutcomes ?c)\<rparr>"
      by (auto simp: MM_Cohort_simulate_def split: sum.splits)
    have init: "\<forall>p \<in> set (patients ?c).
        ifDevelopedAIDS (stateMonitor p) \<longleftrightarrow> timeToAIDS (stateMonitor p) \<noteq> None"
      by (auto simp: MM_Cohort_init_def MM_Patient_init_def MM_PatientStateMonitor_init_def)
    from MM_simulate_all_flag [OF all init]
    have fl: "\<forall>p \<in> set ps'.
        ifDevelopedAIDS (stateMonitor p) \<longleftrightarrow> timeToAIDS (stateMonitor p) \<noteq> None" .
    have "None \<notin> set (timesToAIDS (cohortOutcomes ?c))"
      by (simp add: MM_Cohort_init_def CohortOutcomes_init_def)
    from MM_extract_outcomes_no_None [OF fl this] fl c' show ?thesis
      by simp
  qed
  have c4: "\<exists>c'. MM_Cohort_simulate Empirical_sample (MM_Cohort_init RNG ident pop_size ps)
      n_time_steps = Inr c'"
    if v: "(\<forall>s r. fst (Empirical_sample (probMatrix ps ! HealthStates_value s) r) < 3)
      \<and> valid_Parameters ps"
  proof -
    have "\<forall>p \<in> set (patients (MM_Cohort_init RNG ident pop_size ps)).
        (\<forall>s r. fst (Empirical_sample (probMatrix (Patient_params p) ! HealthStates_value s) r) < 3)
        \<and> valid_Parameters (Patient_params p)"
      using v by (auto simp: MM_Cohort_init_def MM_Patient_init_def)
    from MM_simulate_all_returns [OF this, of n_time_steps]
    obtain ps' where "MM_simulate_all Empirical_sample n_time_steps
        (patients (MM_Cohort_init RNG ident pop_size ps)) = Inr ps'"
      by blast
    then show ?thesis
      by (simp add: MM_Cohort_simulate_def)
  qed
  from c1 c2 c3 c4 show ?thesis
    by blast
qed

theorem C10_ifDevelopedAIDS_iff_timeToAIDS_witness:
  "(\<forall>s r. fst (uniform_sample (probMatrix scenario ! HealthStates_value s) r) < 3)
   \<and> valid_Parameters scenario
   \<and> (\<exists>c'. MM_Cohort_simulate uniform_sample
               (MM_Cohort_init (draws [0.95, 0.5, 0.99]) 3 2 scenario) 10 = Inr c'
          \<and> None \<notin> set (timesToAIDS (cohortOutcomes c'))
          \<and> (\<forall>p \<in> set (patients c').
                ifDevelopedAIDS (stateMonitor p) \<longleftrightarrow> timeToAIDS (stateMonitor p) \<noteq> None))"
proof -
  have a: "\<forall>s r. fst (uniform_sample (probMatrix scenario ! HealthStates_value s) r) < 3"
    using uniform_sample_scenario by blast
  note th = C10_ifDevelopedAIDS_iff_timeToAIDS [of scenario _ _ _ uniform_sample
      "draws [0.95, 0.5, 0.99]" 3 2 10]
  from th a valid_Parameters_scenario
  obtain c' where c': "MM_Cohort_simulate uniform_sample
      (MM_Cohort_init (draws [0.95, 0.5, 0.99]) 3 2 scenario) 10 = Inr c'"
    by blast
  with th have "None \<notin> set (timesToAIDS (cohortOutcomes c'))
      \<and> (\<forall>p \<in> set (patients c').
            ifDevelopedAIDS (stateMonitor p) \<longleftrightarrow> timeToAIDS (stateMonitor p) \<noteq> None)"
    by blast
  with c' a valid_Parameters_scenario show ?thesis
    by blast
qed

subsection \<open>The time to AIDS over a simulation\<close>

lemma HealthStates_of_value_WELL: "HealthStates_of_value i = Inr WELL \<Longrightarrow> i = 0"
  by (auto simp: HealthStates_of_value_def split: if_splits)

lemma MM_update_timeToAIDS:
  "timeToAIDS (MM_PatientStateMonitor_update k ns self) =
     (if currentState self \<noteq> HIV_DEATH \<and> currentState self \<noteq> AIDS \<and> ns = AIDS
      then Some (real_of_int k + 0.5) else timeToAIDS self)"
proof (cases "currentState self = HIV_DEATH")
  case True
  then show ?thesis by (simp add: MM_update_after_death)
next
  case False
  then show ?thesis by (simp add: MM_update_alive)
qed

lemma MM_update_currentState:
  "currentState self \<noteq> HIV_DEATH \<Longrightarrow> currentState (MM_PatientStateMonitor_update k ns self) = ns"
  by (simp add: MM_update_alive)

lemma EE_update_timeToAIDS:
  "EE_PatientStateMonitor_update k ns m = Inr m' \<Longrightarrow>
   timeToAIDS m' =
     (if currentState m \<noteq> AIDS \<and> ns = AIDS then Some (real_of_int k + 0.5) else timeToAIDS m)
   \<and> currentState m' = ns"
  by (auto simp: EE_update_Inr_iff)

text \<open>What one run of the body does to the state, to the time to AIDS and to the parameters.\<close>

lemma EE_step_effect:
  assumes "EE_Patient_simulate_step g k (r, self) = Inr (r', self')"
  shows "\<exists>i. g (probMatrix (Patient_params self))
               (HealthStates_value (currentState (stateMonitor self))) r = (i, r')
           \<and> HealthStates_of_value i = Inr (currentState (stateMonitor self'))"
    and "timeToAIDS (stateMonitor self') =
           (if currentState (stateMonitor self) \<noteq> AIDS \<and> currentState (stateMonitor self') = AIDS
            then Some (real_of_int k + 0.5) else timeToAIDS (stateMonitor self))"
    and "Patient_params self' = Patient_params self"
proof -
  from assms obtain i ns sm where
    d: "g (probMatrix (Patient_params self))
          (HealthStates_value (currentState (stateMonitor self))) r = (i, r')" and
    ns: "HealthStates_of_value i = Inr ns" and
    sm: "EE_PatientStateMonitor_update k ns (stateMonitor self) = Inr sm" and
    s: "self' = self\<lparr>stateMonitor := sm\<rparr>"
    by (auto simp: EE_Patient_simulate_step_def split: prod.splits sum.splits)
  from EE_update_timeToAIDS [OF sm] have c: "currentState sm = ns"
    and t: "timeToAIDS sm = (if currentState (stateMonitor self) \<noteq> AIDS \<and> ns = AIDS
        then Some (real_of_int k + 0.5) else timeToAIDS (stateMonitor self))"
    by simp_all
  from d ns c s show "\<exists>i. g (probMatrix (Patient_params self))
               (HealthStates_value (currentState (stateMonitor self))) r = (i, r')
           \<and> HealthStates_of_value i = Inr (currentState (stateMonitor self'))"
    by simp
  from t c s show "timeToAIDS (stateMonitor self') =
           (if currentState (stateMonitor self) \<noteq> AIDS \<and> currentState (stateMonitor self') = AIDS
            then Some (real_of_int k + 0.5) else timeToAIDS (stateMonitor self))"
    by simp
  from s show "Patient_params self' = Patient_params self"
    by simp
qed

lemma EE_steps_Suc:
  assumes "EE_Patient_simulate_steps g (Suc j) s0 = Inr (r', self')"
  shows "\<exists>r self. EE_Patient_simulate_steps g j s0 = Inr (r, self)
           \<and> EE_Patient_simulate_step g (int j) (r, self) = Inr (r', self')"
  using assms by (auto split: sum.splits)

lemma EE_steps_params:
  "EE_Patient_simulate_steps g j s0 = Inr (r, self) \<Longrightarrow> Patient_params self = Patient_params (snd s0)"
proof (induction j arbitrary: r self)
  case 0
  then show ?case by auto
next
  case (Suc j)
  from EE_steps_Suc [OF Suc.prems] obtain r1 s1 where
    a: "EE_Patient_simulate_steps g j s0 = Inr (r1, s1)" and
    b: "EE_Patient_simulate_step g (int j) (r1, s1) = Inr (r, self)"
    by blast
  from Suc.IH [OF a] EE_step_effect(3) [OF b] show ?case
    by simp
qed

text \<open>
  A run of the body on a patient in AIDS, with a sampler that never draws Well out of
  AIDS: the patient is not in Well afterwards and the time to AIDS is as it was.
\<close>

lemma EE_step_from_AIDS:
  assumes "\<forall>r. fst (g (probMatrix (Patient_params self)) (HealthStates_value AIDS) r)
             \<noteq> HealthStates_value WELL"
    and "currentState (stateMonitor self) = AIDS"
    and "EE_Patient_simulate_step g k (r, self) = Inr (r', self')"
  shows "currentState (stateMonitor self') \<noteq> WELL
       \<and> timeToAIDS (stateMonitor self') = timeToAIDS (stateMonitor self)"
proof -
  from EE_step_effect(1) [OF assms(3)] assms(2) obtain i where
    d: "g (probMatrix (Patient_params self)) (HealthStates_value AIDS) r = (i, r')" and
    ns: "HealthStates_of_value i = Inr (currentState (stateMonitor self'))"
    by auto
  from d assms(1) have "i \<noteq> 0"
    by (metis fst_conv HealthStates_value.simps(1))
  with ns have "currentState (stateMonitor self') \<noteq> WELL"
    using HealthStates_of_value_WELL by metis
  with EE_step_effect(2) [OF assms(3)] assms(2) show ?thesis
    by simp
qed

lemma alive_not_WELL_is_AIDS:
  "s \<noteq> HIV_DEATH \<Longrightarrow> s \<noteq> WELL \<Longrightarrow> s = AIDS"
  by (cases s) simp_all

text \<open>
  Over runs of the body on living patients, from a patient who is not in Well: the
  patient is not in Well later on and the time to AIDS stays what it was.
\<close>

lemma EE_steps_not_WELL:
  assumes "\<forall>r. fst (g (probMatrix (Patient_params (snd s0))) (HealthStates_value AIDS) r)
             \<noteq> HealthStates_value WELL"
    and "\<forall>i < j2. \<exists>r s. EE_Patient_simulate_steps g i s0 = Inr (r, s)
             \<and> currentState (stateMonitor s) \<noteq> HIV_DEATH"
    and "j1 \<le> j2"
    and "EE_Patient_simulate_steps g j1 s0 = Inr (r1, s1)"
    and "currentState (stateMonitor s1) \<noteq> WELL"
    and "EE_Patient_simulate_steps g j2 s0 = Inr (r2, s2)"
  shows "currentState (stateMonitor s2) \<noteq> WELL
       \<and> timeToAIDS (stateMonitor s2) = timeToAIDS (stateMonitor s1)"
  using assms(3,2,6)
proof (induction j2 arbitrary: r2 s2 rule: dec_induct)
  case base
  with assms(4,5) show ?case by simp
next
  case (step j)
  from EE_steps_Suc [OF step.prems(2)] obtain r' s' where
    a: "EE_Patient_simulate_steps g j s0 = Inr (r', s')" and
    b: "EE_Patient_simulate_step g (int j) (r', s') = Inr (r2, s2)"
    by blast
  from step.prems(1) have ab: "\<forall>i < j. \<exists>r s. EE_Patient_simulate_steps g i s0 = Inr (r, s)
      \<and> currentState (stateMonitor s) \<noteq> HIV_DEATH"
    by simp
  from step.IH [OF ab a] have nw: "currentState (stateMonitor s') \<noteq> WELL"
    and t: "timeToAIDS (stateMonitor s') = timeToAIDS (stateMonitor s1)"
    by simp_all
  from step.prems(1) a have "currentState (stateMonitor s') \<noteq> HIV_DEATH"
    by (metis lessI Inr_inject prod.inject)
  with nw have c: "currentState (stateMonitor s') = AIDS"
    by (blast intro: alive_not_WELL_is_AIDS)
  have nr: "\<forall>r. fst (g (probMatrix (Patient_params s')) (HealthStates_value AIDS) r)
      \<noteq> HealthStates_value WELL"
    using assms(1) EE_steps_params [OF a] by simp
  from EE_step_from_AIDS [OF nr c b] t show ?case
    by simp
qed

text \<open>
  Over runs of the body on living patients, from a patient whose time to AIDS is not
  set unless the patient has left Well: the same holds later on.
\<close>

lemma EE_steps_set_not_WELL:
  assumes "\<forall>r. fst (g (probMatrix (Patient_params (snd s0))) (HealthStates_value AIDS) r)
             \<noteq> HealthStates_value WELL"
    and "timeToAIDS (stateMonitor (snd s0)) = None"
    and "\<forall>i < j. \<exists>r s. EE_Patient_simulate_steps g i s0 = Inr (r, s)
             \<and> currentState (stateMonitor s) \<noteq> HIV_DEATH"
    and "EE_Patient_simulate_steps g j s0 = Inr (r, s)"
    and "timeToAIDS (stateMonitor s) \<noteq> None"
  shows "currentState (stateMonitor s) \<noteq> WELL"
  using assms(3,4,5)
proof (induction j arbitrary: r s)
  case 0
  with assms(2) show ?case by auto
next
  case (Suc j)
  from EE_steps_Suc [OF Suc.prems(2)] obtain r' s' where
    a: "EE_Patient_simulate_steps g j s0 = Inr (r', s')" and
    b: "EE_Patient_simulate_step g (int j) (r', s') = Inr (r, s)"
    by blast
  from Suc.prems(1) have ab: "\<forall>i < j. \<exists>r s. EE_Patient_simulate_steps g i s0 = Inr (r, s)
      \<and> currentState (stateMonitor s) \<noteq> HIV_DEATH"
    by simp
  from Suc.prems(1) a have alive: "currentState (stateMonitor s') \<noteq> HIV_DEATH"
    by (metis lessI Inr_inject prod.inject)
  have nr: "\<forall>r. fst (g (probMatrix (Patient_params s')) (HealthStates_value AIDS) r)
      \<noteq> HealthStates_value WELL"
    using assms(1) EE_steps_params [OF a] by simp
  show ?case
  proof (cases "currentState (stateMonitor s') = AIDS")
    case True
    from EE_step_from_AIDS [OF nr True b] show ?thesis by simp
  next
    case False
    show ?thesis
    proof (cases "currentState (stateMonitor s) = AIDS")
      case True
      then show ?thesis by simp
    next
      case notA: False
      with EE_step_effect(2) [OF b]
      have "timeToAIDS (stateMonitor s) = timeToAIDS (stateMonitor s')"
        by simp
      with Suc.prems(3) have set: "timeToAIDS (stateMonitor s') \<noteq> None"
        by simp
      from Suc.IH [OF ab a set] have "currentState (stateMonitor s') \<noteq> WELL" .
      with alive have "currentState (stateMonitor s') = AIDS"
        by (blast intro: alive_not_WELL_is_AIDS)
      with False show ?thesis by simp
    qed
  qed
qed

lemma MM_step_effect:
  assumes "MM_Patient_simulate_step g k self = Inr self'"
    and "currentState (stateMonitor self) \<noteq> HIV_DEATH"
  shows "\<exists>i r'. g (probMatrix (Patient_params self)
                    ! HealthStates_value (currentState (stateMonitor self))) (rng self) = (i, r')
           \<and> HealthStates_of_value i = Inr (currentState (stateMonitor self'))"
    and "timeToAIDS (stateMonitor self') =
           (if currentState (stateMonitor self) \<noteq> AIDS \<and> currentState (stateMonitor self') = AIDS
            then Some (real_of_int k + 0.5) else timeToAIDS (stateMonitor self))"
proof -
  from assms(1) obtain row i r' ns where
    row: "getitem (probMatrix (Patient_params self))
            (HealthStates_value (currentState (stateMonitor self))) = Inr row" and
    d: "g row (rng self) = (i, r')" and
    ns: "HealthStates_of_value i = Inr ns" and
    s: "self' = self\<lparr>rng := r', stateMonitor :=
          MM_PatientStateMonitor_update k ns (stateMonitor self)\<rparr>"
    by (auto simp: MM_Patient_simulate_step_def split: prod.splits sum.splits)
  from row have r: "row = probMatrix (Patient_params self)
      ! HealthStates_value (currentState (stateMonitor self))"
    by (auto simp: getitem_def split: if_splits)
  from s assms(2) have c: "currentState (stateMonitor self') = ns"
    by (simp add: MM_update_currentState)
  from d ns r c show "\<exists>i r'. g (probMatrix (Patient_params self)
                    ! HealthStates_value (currentState (stateMonitor self))) (rng self) = (i, r')
           \<and> HealthStates_of_value i = Inr (currentState (stateMonitor self'))"
    by auto
  from s c assms(2) show "timeToAIDS (stateMonitor self') =
           (if currentState (stateMonitor self) \<noteq> AIDS \<and> currentState (stateMonitor self') = AIDS
            then Some (real_of_int k + 0.5) else timeToAIDS (stateMonitor self))"
    by (simp add: MM_update_timeToAIDS)
qed

lemma MM_step_params:
  "MM_Patient_simulate_step g k self = Inr self' \<Longrightarrow> Patient_params self' = Patient_params self"
  by (auto simp: MM_Patient_simulate_step_def split: prod.splits sum.splits)

lemma MM_steps_Suc:
  assumes "MM_Patient_simulate_steps g (Suc j) s0 = Inr self'"
  shows "\<exists>self. MM_Patient_simulate_steps g j s0 = Inr self
           \<and> MM_Patient_simulate_step g (int j) self = Inr self'"
  using assms by (auto split: sum.splits)

lemma MM_steps_params:
  "MM_Patient_simulate_steps g j s0 = Inr self \<Longrightarrow> Patient_params self = Patient_params s0"
proof (induction j arbitrary: self)
  case 0
  then show ?case by auto
next
  case (Suc j)
  from MM_steps_Suc [OF Suc.prems] obtain s1 where
    a: "MM_Patient_simulate_steps g j s0 = Inr s1" and
    b: "MM_Patient_simulate_step g (int j) s1 = Inr self"
    by blast
  from Suc.IH [OF a] MM_step_params [OF b] show ?case
    by simp
qed

lemma MM_step_from_AIDS:
  assumes "\<forall>r. fst (g (probMatrix (Patient_params self) ! HealthStates_value AIDS) r)
             \<noteq> HealthStates_value WELL"
    and "currentState (stateMonitor self) = AIDS"
    and "MM_Patient_simulate_step g k self = Inr self'"
  shows "currentState (stateMonitor self') \<noteq> WELL
       \<and> timeToAIDS (stateMonitor self') = timeToAIDS (stateMonitor self)"
proof -
  from assms(2) have alive: "currentState (stateMonitor self) \<noteq> HIV_DEATH"
    by simp
  from MM_step_effect(1) [OF assms(3) alive] assms(2) obtain i r' where
    d: "g (probMatrix (Patient_params self) ! HealthStates_value AIDS) (rng self) = (i, r')" and
    ns: "HealthStates_of_value i = Inr (currentState (stateMonitor self'))"
    by auto
  from d assms(1) have "i \<noteq> 0"
    by (metis fst_conv HealthStates_value.simps(1))
  with ns have "currentState (stateMonitor self') \<noteq> WELL"
    using HealthStates_of_value_WELL by metis
  with MM_step_effect(2) [OF assms(3) alive] assms(2) show ?thesis
    by simp
qed

lemma MM_steps_not_WELL:
  assumes "\<forall>r. fst (g (probMatrix (Patient_params s0) ! HealthStates_value AIDS) r)
             \<noteq> HealthStates_value WELL"
    and "\<forall>i < j2. \<exists>s. MM_Patient_simulate_steps g i s0 = Inr s
             \<and> currentState (stateMonitor s) \<noteq> HIV_DEATH"
    and "j1 \<le> j2"
    and "MM_Patient_simulate_steps g j1 s0 = Inr s1"
    and "currentState (stateMonitor s1) \<noteq> WELL"
    and "MM_Patient_simulate_steps g j2 s0 = Inr s2"
  shows "currentState (stateMonitor s2) \<noteq> WELL
       \<and> timeToAIDS (stateMonitor s2) = timeToAIDS (stateMonitor s1)"
  using assms(3,2,6)
proof (induction j2 arbitrary: s2 rule: dec_induct)
  case base
  with assms(4,5) show ?case by simp
next
  case (step j)
  from MM_steps_Suc [OF step.prems(2)] obtain s' where
    a: "MM_Patient_simulate_steps g j s0 = Inr s'" and
    b: "MM_Patient_simulate_step g (int j) s' = Inr s2"
    by blast
  from step.prems(1) have ab: "\<forall>i < j. \<exists>s. MM_Patient_simulate_steps g i s0 = Inr s
      \<and> currentState (stateMonitor s) \<noteq> HIV_DEATH"
    by simp
  from step.IH [OF ab a] have nw: "currentState (stateMonitor s') \<noteq> WELL"
    and t: "timeToAIDS (stateMonitor s') = timeToAIDS (stateMonitor s1)"
    by simp_all
  from step.prems(1) a have "currentState (stateMonitor s') \<noteq> HIV_DEATH"
    by (metis lessI Inr_inject)
  with nw have c: "currentState (stateMonitor s') = AIDS"
    by (blast intro: alive_not_WELL_is_AIDS)
  have nr: "\<forall>r. fst (g (probMatrix (Patient_params s') ! HealthStates_value AIDS) r)
      \<noteq> HealthStates_value WELL"
    using assms(1) MM_steps_params [OF a] by simp
  from MM_step_from_AIDS [OF nr c b] t show ?case
    by simp
qed

lemma MM_steps_set_not_WELL:
  assumes "\<forall>r. fst (g (probMatrix (Patient_params s0) ! HealthStates_value AIDS) r)
             \<noteq> HealthStates_value WELL"
    and "timeToAIDS (stateMonitor s0) = None"
    and "\<forall>i < j. \<exists>s. MM_Patient_simulate_steps g i s0 = Inr s
             \<and> currentState (stateMonitor s) \<noteq> HIV_DEATH"
    and "MM_Patient_simulate_steps g j s0 = Inr s"
    and "timeToAIDS (stateMonitor s) \<noteq> None"
  shows "currentState (stateMonitor s) \<noteq> WELL"
  using assms(3,4,5)
proof (induction j arbitrary: s)
  case 0
  with assms(2) show ?case by auto
next
  case (Suc j)
  from MM_steps_Suc [OF Suc.prems(2)] obtain s' where
    a: "MM_Patient_simulate_steps g j s0 = Inr s'" and
    b: "MM_Patient_simulate_step g (int j) s' = Inr s"
    by blast
  from Suc.prems(1) have ab: "\<forall>i < j. \<exists>s. MM_Patient_simulate_steps g i s0 = Inr s
      \<and> currentState (stateMonitor s) \<noteq> HIV_DEATH"
    by simp
  from Suc.prems(1) a have alive: "currentState (stateMonitor s') \<noteq> HIV_DEATH"
    by (metis lessI Inr_inject)
  have nr: "\<forall>r. fst (g (probMatrix (Patient_params s') ! HealthStates_value AIDS) r)
      \<noteq> HealthStates_value WELL"
    using assms(1) MM_steps_params [OF a] by simp
  show ?case
  proof (cases "currentState (stateMonitor s') = AIDS")
    case True
    from MM_step_from_AIDS [OF nr True b] show ?thesis by simp
  next
    case False
    show ?thesis
    proof (cases "currentState (stateMonitor s) = AIDS")
      case True
      then show ?thesis by simp
    next
      case notA: False
      with MM_step_effect(2) [OF b alive]
      have "timeToAIDS (stateMonitor s) = timeToAIDS (stateMonitor s')"
        by simp
      with Suc.prems(3) have set: "timeToAIDS (stateMonitor s') \<noteq> None"
        by simp
      from Suc.IH [OF ab a set] have "currentState (stateMonitor s') \<noteq> WELL" .
      with alive have "currentState (stateMonitor s') = AIDS"
        by (blast intro: alive_not_WELL_is_AIDS)
      with False show ?thesis by simp
    qed
  qed
qed

text \<open>The runs of the body that a simulation makes are on living patients.\<close>

lemma EE_simulate_alive:
  assumes "EE_Patient_simulate RandomState g p n = Inr (k, p')"
  shows "\<forall>i < nat k. \<exists>r s. EE_Patient_simulate_steps g i (RandomState (Patient_id p), p) = Inr (r, s)
           \<and> currentState (stateMonitor s) \<noteq> HIV_DEATH"
proof (cases "0 \<le> n")
  case True
  from assms have l: "EE_Patient_simulate_loop g n 0 (RandomState (Patient_id p)) p = Inr (k, p')"
    by (simp add: EE_Patient_simulate_def)
  have z: "EE_Patient_simulate_steps g (nat 0) (RandomState (Patient_id p), p)
      = Inr (RandomState (Patient_id p), p)"
    by simp
  from EE_loop_steps [OF l z _ True] show ?thesis
    by auto
next
  case False
  with assms have "k = 0"
    unfolding EE_Patient_simulate_def
    by (subst (asm) EE_Patient_simulate_loop.simps) auto
  then show ?thesis by simp
qed

lemma MM_simulate_alive:
  assumes "MM_Patient_simulate g q n = Inr (k, q')"
  shows "\<forall>i < nat k. \<exists>s. MM_Patient_simulate_steps g i q = Inr s
           \<and> currentState (stateMonitor s) \<noteq> HIV_DEATH"
proof (cases "0 \<le> n")
  case True
  from assms have l: "MM_Patient_simulate_loop g n 0 q = Inr (k, q')"
    by (simp add: MM_Patient_simulate_def)
  have z: "MM_Patient_simulate_steps g (nat 0) q = Inr q"
    by simp
  from MM_loop_steps [OF l z _ True] show ?thesis
    by auto
next
  case False
  with assms have "k = 0"
    unfolding MM_Patient_simulate_def
    by (subst (asm) MM_Patient_simulate_loop.simps) auto
  then show ?thesis by simp
qed

lemma EE_simulate_timeToAIDS_kept:
  assumes "\<forall>r. fst (g (probMatrix ps) (HealthStates_value AIDS) r) \<noteq> HealthStates_value WELL"
    and "EE_Patient_simulate RandomState g (EE_Patient_init ident ps) n = Inr (k, p')"
    and "j1 \<le> j2" and "j2 \<le> nat k"
    and "EE_Patient_simulate_steps g j1 (RandomState ident, EE_Patient_init ident ps) = Inr (r1, s1)"
    and "EE_Patient_simulate_steps g j2 (RandomState ident, EE_Patient_init ident ps) = Inr (r2, s2)"
    and "timeToAIDS (stateMonitor s1) = Some t"
  shows "timeToAIDS (stateMonitor s2) = Some t"
proof -
  let ?s0 = "(RandomState ident, EE_Patient_init ident ps)"
  have i: "Patient_id (EE_Patient_init ident ps) = ident"
    "Patient_params (snd ?s0) = ps" "timeToAIDS (stateMonitor (snd ?s0)) = None"
    by (simp_all add: EE_Patient_init_def EE_PatientStateMonitor_init_def)
  from EE_simulate_alive [OF assms(2)] i(1)
  have al: "\<forall>i < nat k. \<exists>r s. EE_Patient_simulate_steps g i ?s0 = Inr (r, s)
      \<and> currentState (stateMonitor s) \<noteq> HIV_DEATH"
    by simp
  with assms(3,4) have a1: "\<forall>i < j1. \<exists>r s. EE_Patient_simulate_steps g i ?s0 = Inr (r, s)
      \<and> currentState (stateMonitor s) \<noteq> HIV_DEATH"
    and a2: "\<forall>i < j2. \<exists>r s. EE_Patient_simulate_steps g i ?s0 = Inr (r, s)
      \<and> currentState (stateMonitor s) \<noteq> HIV_DEATH"
    by simp_all
  have nr: "\<forall>r. fst (g (probMatrix (Patient_params (snd ?s0))) (HealthStates_value AIDS) r)
      \<noteq> HealthStates_value WELL"
    using assms(1) i(2) by simp
  from assms(7) have "timeToAIDS (stateMonitor s1) \<noteq> None"
    by simp
  from EE_steps_set_not_WELL [OF nr i(3) a1 assms(5) this]
  have "currentState (stateMonitor s1) \<noteq> WELL" .
  from EE_steps_not_WELL [OF nr a2 assms(3) assms(5) this assms(6)] assms(7)
  show ?thesis by simp
qed

lemma EE_simulate_AIDS_entered_once:
  assumes "\<forall>r. fst (g (probMatrix ps) (HealthStates_value AIDS) r) \<noteq> HealthStates_value WELL"
    and "EE_Patient_simulate RandomState g (EE_Patient_init ident ps) n = Inr (k, p')"
    and "j1 < j2" and "j2 < nat k"
    and "EE_Patient_simulate_steps g (Suc j1) (RandomState ident, EE_Patient_init ident ps)
           = Inr (r1, s1)"
    and "currentState (stateMonitor s1) = AIDS"
    and "EE_Patient_simulate_steps g j2 (RandomState ident, EE_Patient_init ident ps) = Inr (r2, s2)"
  shows "currentState (stateMonitor s2) = AIDS"
proof -
  let ?s0 = "(RandomState ident, EE_Patient_init ident ps)"
  have i: "Patient_id (EE_Patient_init ident ps) = ident" "Patient_params (snd ?s0) = ps"
    by (simp_all add: EE_Patient_init_def)
  from EE_simulate_alive [OF assms(2)] i(1)
  have al: "\<forall>i < nat k. \<exists>r s. EE_Patient_simulate_steps g i ?s0 = Inr (r, s)
      \<and> currentState (stateMonitor s) \<noteq> HIV_DEATH"
    by simp
  with assms(4) have a2: "\<forall>i < j2. \<exists>r s. EE_Patient_simulate_steps g i ?s0 = Inr (r, s)
      \<and> currentState (stateMonitor s) \<noteq> HIV_DEATH"
    by simp
  have nr: "\<forall>r. fst (g (probMatrix (Patient_params (snd ?s0))) (HealthStates_value AIDS) r)
      \<noteq> HealthStates_value WELL"
    using assms(1) i(2) by simp
  from assms(3) have le: "Suc j1 \<le> j2" by simp
  from assms(6) have nw: "currentState (stateMonitor s1) \<noteq> WELL" by simp
  from EE_steps_not_WELL [OF nr a2 le assms(5) nw assms(7)]
  have "currentState (stateMonitor s2) \<noteq> WELL" by simp
  moreover from al assms(4,7) have "currentState (stateMonitor s2) \<noteq> HIV_DEATH"
    by (metis Inr_inject prod.inject)
  ultimately show ?thesis
    by (blast intro: alive_not_WELL_is_AIDS)
qed

lemma MM_simulate_timeToAIDS_kept:
  assumes "\<forall>r. fst (g (probMatrix ps ! HealthStates_value AIDS) r) \<noteq> HealthStates_value WELL"
    and "MM_Patient_simulate g (MM_Patient_init RNG ident ps) n = Inr (k, q')"
    and "j1 \<le> j2" and "j2 \<le> nat k"
    and "MM_Patient_simulate_steps g j1 (MM_Patient_init RNG ident ps) = Inr s1"
    and "MM_Patient_simulate_steps g j2 (MM_Patient_init RNG ident ps) = Inr s2"
    and "timeToAIDS (stateMonitor s1) = Some t"
  shows "timeToAIDS (stateMonitor s2) = Some t"
proof -
  let ?s0 = "MM_Patient_init RNG ident ps"
  have i: "Patient_params ?s0 = ps" "timeToAIDS (stateMonitor ?s0) = None"
    by (simp_all add: MM_Patient_init_def MM_PatientStateMonitor_init_def)
  from MM_simulate_alive [OF assms(2)]
  have al: "\<forall>i < nat k. \<exists>s. MM_Patient_simulate_steps g i ?s0 = Inr s
      \<and> currentState (stateMonitor s) \<noteq> HIV_DEATH" .
  with assms(3,4) have a1: "\<forall>i < j1. \<exists>s. MM_Patient_simulate_steps g i ?s0 = Inr s
      \<and> currentState (stateMonitor s) \<noteq> HIV_DEATH"
    and a2: "\<forall>i < j2. \<exists>s. MM_Patient_simulate_steps g i ?s0 = Inr s
      \<and> currentState (stateMonitor s) \<noteq> HIV_DEATH"
    by simp_all
  have nr: "\<forall>r. fst (g (probMatrix (Patient_params ?s0) ! HealthStates_value AIDS) r)
      \<noteq> HealthStates_value WELL"
    using assms(1) i(1) by simp
  from assms(7) have "timeToAIDS (stateMonitor s1) \<noteq> None"
    by simp
  from MM_steps_set_not_WELL [OF nr i(2) a1 assms(5) this]
  have "currentState (stateMonitor s1) \<noteq> WELL" .
  from MM_steps_not_WELL [OF nr a2 assms(3) assms(5) this assms(6)] assms(7)
  show ?thesis by simp
qed

lemma MM_simulate_AIDS_entered_once:
  assumes "\<forall>r. fst (g (probMatrix ps ! HealthStates_value AIDS) r) \<noteq> HealthStates_value WELL"
    and "MM_Patient_simulate g (MM_Patient_init RNG ident ps) n = Inr (k, q')"
    and "j1 < j2" and "j2 < nat k"
    and "MM_Patient_simulate_steps g (Suc j1) (MM_Patient_init RNG ident ps) = Inr s1"
    and "currentState (stateMonitor s1) = AIDS"
    and "MM_Patient_simulate_steps g j2 (MM_Patient_init RNG ident ps) = Inr s2"
  shows "currentState (stateMonitor s2) = AIDS"
proof -
  let ?s0 = "MM_Patient_init RNG ident ps"
  have i: "Patient_params ?s0 = ps"
    by (simp add: MM_Patient_init_def)
  from MM_simulate_alive [OF assms(2)]
  have al: "\<forall>i < nat k. \<exists>s. MM_Patient_simulate_steps g i ?s0 = Inr s
      \<and> currentState (stateMonitor s) \<noteq> HIV_DEATH" .
  with assms(4) have a2: "\<forall>i < j2. \<exists>s. MM_Patient_simulate_steps g i ?s0 = Inr s
      \<and> currentState (stateMonitor s) \<noteq> HIV_DEATH"
    by simp
  have nr: "\<forall>r. fst (g (probMatrix (Patient_params ?s0) ! HealthStates_value AIDS) r)
      \<noteq> HealthStates_value WELL"
    using assms(1) i by simp
  from assms(3) have le: "Suc j1 \<le> j2" by simp
  from assms(6) have nw: "currentState (stateMonitor s1) \<noteq> WELL" by simp
  from MM_steps_not_WELL [OF nr a2 le assms(5) nw assms(7)]
  have "currentState (stateMonitor s2) \<noteq> WELL" by simp
  moreover from al assms(4,7) have "currentState (stateMonitor s2) \<noteq> HIV_DEATH"
    by (metis Inr_inject)
  ultimately show ?thesis
    by (blast intro: alive_not_WELL_is_AIDS)
qed

text \<open>
  C3. The claim: over a simulation, \<^verbatim>\<open>timeToAIDS\<close> is assigned at most once, by an
  update in which \<^verbatim>\<open>currentState\<close> is not AIDS and \<^verbatim>\<open>new_state\<close> is AIDS, and is not
  overwritten later, for every transition matrix that satisfies the invariants. With
  the matrix of \<open>reentry\<close>, whose rows sum to 1 and whose death row is \<open>[0, 0, 1]\<close>,
  and the draws 0.7, 0.2 and 0.7, the patient goes from Well to AIDS, back to Well
  and to AIDS again: \<^verbatim>\<open>timeToAIDS\<close> is 0.5 after the first and the second step and 2.5
  after the third, in both modules.
\<close>

theorem C3_timeToAIDS_overwritten:
  "sum_list (probMatrix reentry ! 0) = 1
   \<and> sum_list (probMatrix reentry ! 1) = 1
   \<and> probMatrix reentry ! 2 = [0, 0, 1]
   \<and> final_timeToAIDS (EE_Patient_simulate (draws [0.7, 0.2, 0.7]) uniform_get_next_state
         (EE_Patient_init 0 reentry) 1) = Inr (AIDS, Some 0.5)
   \<and> final_timeToAIDS (EE_Patient_simulate (draws [0.7, 0.2, 0.7]) uniform_get_next_state
         (EE_Patient_init 0 reentry) 2) = Inr (WELL, Some 0.5)
   \<and> final_timeToAIDS (EE_Patient_simulate (draws [0.7, 0.2, 0.7]) uniform_get_next_state
         (EE_Patient_init 0 reentry) 3) = Inr (AIDS, Some 2.5)
   \<and> final_timeToAIDS (MM_Patient_simulate uniform_sample
         (MM_Patient_init (draws [0.7, 0.2, 0.7]) 0 reentry) 1) = Inr (AIDS, Some 0.5)
   \<and> final_timeToAIDS (MM_Patient_simulate uniform_sample
         (MM_Patient_init (draws [0.7, 0.2, 0.7]) 0 reentry) 2) = Inr (WELL, Some 0.5)
   \<and> final_timeToAIDS (MM_Patient_simulate uniform_sample
         (MM_Patient_init (draws [0.7, 0.2, 0.7]) 0 reentry) 3) = Inr (AIDS, Some 2.5)"
  by (simp add: final_timeToAIDS_def
      EE_Patient_simulate_def EE_Patient_simulate_loop.simps EE_Patient_init_def
      MM_Patient_simulate_def MM_Patient_simulate_loop.simps MM_Patient_init_def
      EE_PatientStateMonitor_init_def MM_PatientStateMonitor_init_def
      PatientCostUtilityMonitor_init_def get_if_alive_def
      uniform_get_next_state_def uniform_sample_def HealthStates_of_value_def
      EE_PatientStateMonitor_update_def MM_PatientStateMonitor_update_def
      EE_PatientCostUtilityMonitor_update_def MM_PatientCostUtilityMonitor_update_def
      EE_cost_def EE_utility_def getitem_def pv_single_payment_def Let_def scenario_def
      reentry_def draws_def)

text \<open>
  C3 as amended. \<^verbatim>\<open>timeToAIDS\<close> is assigned only by an update in which
  \<^verbatim>\<open>currentState\<close> is not AIDS (nor, in \<^verbatim>\<open>MarkovModelClasses\<close>, the death state) and
  \<^verbatim>\<open>new_state\<close> is AIDS, and every such update assigns \<^verbatim>\<open>time_step + 0.5\<close>, whether
  it was set before or not. Over the whole simulation of a patient from its
  construction, with a sampler that never draws the living state other than AIDS
  (Well) out of AIDS:
  \<^item> once \<^verbatim>\<open>timeToAIDS\<close> holds a value, after \<open>j1\<close> runs of the loop's body, it holds
    that value after every later run \<open>j2\<close>, up to the last;
  \<^item> once the patient is in AIDS, after the run \<open>j1\<close>, every later run of the body of
    this simulation is on a patient in AIDS, so that its update assigns nothing.
  So \<^verbatim>\<open>timeToAIDS\<close> is assigned at most once and is not overwritten.
\<close>

theorem C3_timeToAIDS_assigned:
  "timeToAIDS (MM_PatientStateMonitor_update time_step new_state self) =
     (if currentState self \<noteq> HIV_DEATH \<and> currentState self \<noteq> AIDS \<and> new_state = AIDS
      then Some (real_of_int time_step + 0.5) else timeToAIDS self)
   \<and> (\<forall>m'. EE_PatientStateMonitor_update time_step new_state m = Inr m' \<longrightarrow>
          timeToAIDS m' =
            (if currentState m \<noteq> AIDS \<and> new_state = AIDS
             then Some (real_of_int time_step + 0.5) else timeToAIDS m))
   \<and> (\<forall>k p' j1 j2 r1 s1 r2 s2 t.
          (\<forall>r. fst (get_next_state (probMatrix ps) (HealthStates_value AIDS) r)
                 \<noteq> HealthStates_value WELL)
          \<and> EE_Patient_simulate RandomState get_next_state (EE_Patient_init ident ps) n_time_steps
              = Inr (k, p')
          \<and> j1 \<le> j2 \<and> j2 \<le> nat k
          \<and> EE_Patient_simulate_steps get_next_state j1
               (RandomState ident, EE_Patient_init ident ps) = Inr (r1, s1)
          \<and> EE_Patient_simulate_steps get_next_state j2
               (RandomState ident, EE_Patient_init ident ps) = Inr (r2, s2)
          \<and> timeToAIDS (stateMonitor s1) = Some t \<longrightarrow>
          timeToAIDS (stateMonitor s2) = Some t)
   \<and> (\<forall>k p' j1 j2 r1 s1 r2 s2.
          (\<forall>r. fst (get_next_state (probMatrix ps) (HealthStates_value AIDS) r)
                 \<noteq> HealthStates_value WELL)
          \<and> EE_Patient_simulate RandomState get_next_state (EE_Patient_init ident ps) n_time_steps
              = Inr (k, p')
          \<and> j1 < j2 \<and> j2 < nat k
          \<and> EE_Patient_simulate_steps get_next_state (Suc j1)
               (RandomState ident, EE_Patient_init ident ps) = Inr (r1, s1)
          \<and> currentState (stateMonitor s1) = AIDS
          \<and> EE_Patient_simulate_steps get_next_state j2
               (RandomState ident, EE_Patient_init ident ps) = Inr (r2, s2) \<longrightarrow>
          currentState (stateMonitor s2) = AIDS)
   \<and> (\<forall>k q' j1 j2 s1 s2 t.
          (\<forall>r. fst (Empirical_sample (probMatrix ps ! HealthStates_value AIDS) r)
                 \<noteq> HealthStates_value WELL)
          \<and> MM_Patient_simulate Empirical_sample (MM_Patient_init RNG ident ps) n_time_steps
              = Inr (k, q')
          \<and> j1 \<le> j2 \<and> j2 \<le> nat k
          \<and> MM_Patient_simulate_steps Empirical_sample j1 (MM_Patient_init RNG ident ps) = Inr s1
          \<and> MM_Patient_simulate_steps Empirical_sample j2 (MM_Patient_init RNG ident ps) = Inr s2
          \<and> timeToAIDS (stateMonitor s1) = Some t \<longrightarrow>
          timeToAIDS (stateMonitor s2) = Some t)
   \<and> (\<forall>k q' j1 j2 s1 s2.
          (\<forall>r. fst (Empirical_sample (probMatrix ps ! HealthStates_value AIDS) r)
                 \<noteq> HealthStates_value WELL)
          \<and> MM_Patient_simulate Empirical_sample (MM_Patient_init RNG ident ps) n_time_steps
              = Inr (k, q')
          \<and> j1 < j2 \<and> j2 < nat k
          \<and> MM_Patient_simulate_steps Empirical_sample (Suc j1) (MM_Patient_init RNG ident ps)
              = Inr s1
          \<and> currentState (stateMonitor s1) = AIDS
          \<and> MM_Patient_simulate_steps Empirical_sample j2 (MM_Patient_init RNG ident ps) = Inr s2 \<longrightarrow>
          currentState (stateMonitor s2) = AIDS)"
proof -
  have c1: "timeToAIDS (MM_PatientStateMonitor_update time_step new_state self) =
     (if currentState self \<noteq> HIV_DEATH \<and> currentState self \<noteq> AIDS \<and> new_state = AIDS
      then Some (real_of_int time_step + 0.5) else timeToAIDS self)"
    by (rule MM_update_timeToAIDS)
  have c2: "\<forall>m'. EE_PatientStateMonitor_update time_step new_state m = Inr m' \<longrightarrow>
      timeToAIDS m' =
        (if currentState m \<noteq> AIDS \<and> new_state = AIDS
         then Some (real_of_int time_step + 0.5) else timeToAIDS m)"
    using EE_update_timeToAIDS by blast
  have c3: "\<forall>k p' j1 j2 r1 s1 r2 s2 t.
          (\<forall>r. fst (get_next_state (probMatrix ps) (HealthStates_value AIDS) r)
                 \<noteq> HealthStates_value WELL)
          \<and> EE_Patient_simulate RandomState get_next_state (EE_Patient_init ident ps) n_time_steps
              = Inr (k, p')
          \<and> j1 \<le> j2 \<and> j2 \<le> nat k
          \<and> EE_Patient_simulate_steps get_next_state j1
               (RandomState ident, EE_Patient_init ident ps) = Inr (r1, s1)
          \<and> EE_Patient_simulate_steps get_next_state j2
               (RandomState ident, EE_Patient_init ident ps) = Inr (r2, s2)
          \<and> timeToAIDS (stateMonitor s1) = Some t \<longrightarrow>
          timeToAIDS (stateMonitor s2) = Some t"
  proof (intro allI impI, elim conjE)
    fix k p' j1 j2 r1 s1 r2 s2 t
    assume "\<forall>r. fst (get_next_state (probMatrix ps) (HealthStates_value AIDS) r)
        \<noteq> HealthStates_value WELL"
      and "EE_Patient_simulate RandomState get_next_state (EE_Patient_init ident ps) n_time_steps
        = Inr (k, p')"
      and "j1 \<le> j2" and "j2 \<le> nat k"
      and "EE_Patient_simulate_steps get_next_state j1
        (RandomState ident, EE_Patient_init ident ps) = Inr (r1, s1)"
      and "EE_Patient_simulate_steps get_next_state j2
        (RandomState ident, EE_Patient_init ident ps) = Inr (r2, s2)"
      and "timeToAIDS (stateMonitor s1) = Some t"
    then show "timeToAIDS (stateMonitor s2) = Some t"
      by (rule EE_simulate_timeToAIDS_kept [where g = get_next_state])
  qed
  have c4: "\<forall>k p' j1 j2 r1 s1 r2 s2.
          (\<forall>r. fst (get_next_state (probMatrix ps) (HealthStates_value AIDS) r)
                 \<noteq> HealthStates_value WELL)
          \<and> EE_Patient_simulate RandomState get_next_state (EE_Patient_init ident ps) n_time_steps
              = Inr (k, p')
          \<and> j1 < j2 \<and> j2 < nat k
          \<and> EE_Patient_simulate_steps get_next_state (Suc j1)
               (RandomState ident, EE_Patient_init ident ps) = Inr (r1, s1)
          \<and> currentState (stateMonitor s1) = AIDS
          \<and> EE_Patient_simulate_steps get_next_state j2
               (RandomState ident, EE_Patient_init ident ps) = Inr (r2, s2) \<longrightarrow>
          currentState (stateMonitor s2) = AIDS"
  proof (intro allI impI, elim conjE)
    fix k p' j1 j2 r1 s1 r2 s2
    assume "\<forall>r. fst (get_next_state (probMatrix ps) (HealthStates_value AIDS) r)
        \<noteq> HealthStates_value WELL"
      and "EE_Patient_simulate RandomState get_next_state (EE_Patient_init ident ps) n_time_steps
        = Inr (k, p')"
      and "j1 < j2" and "j2 < nat k"
      and "EE_Patient_simulate_steps get_next_state (Suc j1)
        (RandomState ident, EE_Patient_init ident ps) = Inr (r1, s1)"
      and "currentState (stateMonitor s1) = AIDS"
      and "EE_Patient_simulate_steps get_next_state j2
        (RandomState ident, EE_Patient_init ident ps) = Inr (r2, s2)"
    then show "currentState (stateMonitor s2) = AIDS"
      by (rule EE_simulate_AIDS_entered_once [where g = get_next_state])
  qed
  have c5: "\<forall>k q' j1 j2 s1 s2 t.
          (\<forall>r. fst (Empirical_sample (probMatrix ps ! HealthStates_value AIDS) r)
                 \<noteq> HealthStates_value WELL)
          \<and> MM_Patient_simulate Empirical_sample (MM_Patient_init RNG ident ps) n_time_steps
              = Inr (k, q')
          \<and> j1 \<le> j2 \<and> j2 \<le> nat k
          \<and> MM_Patient_simulate_steps Empirical_sample j1 (MM_Patient_init RNG ident ps) = Inr s1
          \<and> MM_Patient_simulate_steps Empirical_sample j2 (MM_Patient_init RNG ident ps) = Inr s2
          \<and> timeToAIDS (stateMonitor s1) = Some t \<longrightarrow>
          timeToAIDS (stateMonitor s2) = Some t"
  proof (intro allI impI, elim conjE)
    fix k q' j1 j2 s1 s2 t
    assume "\<forall>r. fst (Empirical_sample (probMatrix ps ! HealthStates_value AIDS) r)
        \<noteq> HealthStates_value WELL"
      and "MM_Patient_simulate Empirical_sample (MM_Patient_init RNG ident ps) n_time_steps
        = Inr (k, q')"
      and "j1 \<le> j2" and "j2 \<le> nat k"
      and "MM_Patient_simulate_steps Empirical_sample j1 (MM_Patient_init RNG ident ps) = Inr s1"
      and "MM_Patient_simulate_steps Empirical_sample j2 (MM_Patient_init RNG ident ps) = Inr s2"
      and "timeToAIDS (stateMonitor s1) = Some t"
    then show "timeToAIDS (stateMonitor s2) = Some t"
      by (rule MM_simulate_timeToAIDS_kept [where g = Empirical_sample])
  qed
  have c6: "\<forall>k q' j1 j2 s1 s2.
          (\<forall>r. fst (Empirical_sample (probMatrix ps ! HealthStates_value AIDS) r)
                 \<noteq> HealthStates_value WELL)
          \<and> MM_Patient_simulate Empirical_sample (MM_Patient_init RNG ident ps) n_time_steps
              = Inr (k, q')
          \<and> j1 < j2 \<and> j2 < nat k
          \<and> MM_Patient_simulate_steps Empirical_sample (Suc j1) (MM_Patient_init RNG ident ps)
              = Inr s1
          \<and> currentState (stateMonitor s1) = AIDS
          \<and> MM_Patient_simulate_steps Empirical_sample j2 (MM_Patient_init RNG ident ps) = Inr s2 \<longrightarrow>
          currentState (stateMonitor s2) = AIDS"
  proof (intro allI impI, elim conjE)
    fix k q' j1 j2 s1 s2
    assume "\<forall>r. fst (Empirical_sample (probMatrix ps ! HealthStates_value AIDS) r)
        \<noteq> HealthStates_value WELL"
      and "MM_Patient_simulate Empirical_sample (MM_Patient_init RNG ident ps) n_time_steps
        = Inr (k, q')"
      and "j1 < j2" and "j2 < nat k"
      and "MM_Patient_simulate_steps Empirical_sample (Suc j1) (MM_Patient_init RNG ident ps)
        = Inr s1"
      and "currentState (stateMonitor s1) = AIDS"
      and "MM_Patient_simulate_steps Empirical_sample j2 (MM_Patient_init RNG ident ps) = Inr s2"
    then show "currentState (stateMonitor s2) = AIDS"
      by (rule MM_simulate_AIDS_entered_once [where g = Empirical_sample])
  qed
  show ?thesis
    by (intro conjI) (rule c1 c2 c3 c4 c5 c6)+
qed

lemma uniform_get_next_state_scenario_AIDS:
  "fst (uniform_get_next_state (probMatrix scenario) (HealthStates_value AIDS) r)
     \<noteq> HealthStates_value WELL"
  by (auto simp: uniform_get_next_state_def uniform_sample_def scenario_def split: list.splits)

theorem C3_timeToAIDS_assigned_witness:
  "(\<forall>r. fst (uniform_get_next_state (probMatrix scenario) (HealthStates_value AIDS) r)
          \<noteq> HealthStates_value WELL)
   \<and> (\<exists>k p' r1 s1 r2 s2.
          EE_Patient_simulate (draws [0.95, 0.5, 0.99]) uniform_get_next_state
            (EE_Patient_init 7 scenario) 10 = Inr (k, p')
          \<and> (1 :: nat) \<le> 3 \<and> 3 \<le> nat k
          \<and> EE_Patient_simulate_steps uniform_get_next_state 1
               (draws [0.95, 0.5, 0.99] 7, EE_Patient_init 7 scenario) = Inr (r1, s1)
          \<and> EE_Patient_simulate_steps uniform_get_next_state 3
               (draws [0.95, 0.5, 0.99] 7, EE_Patient_init 7 scenario) = Inr (r2, s2)
          \<and> currentState (stateMonitor s1) = AIDS
          \<and> timeToAIDS (stateMonitor s1) = Some 0.5
          \<and> timeToAIDS (stateMonitor s2) = Some 0.5)
   \<and> timeToAIDS (MM_PatientStateMonitor_update 4 AIDS (MM_PatientStateMonitor_init scenario))
       = Some 4.5"
proof -
  note ev = EE_Patient_simulate_def EE_Patient_simulate_loop.simps EE_Patient_init_def
    EE_Patient_simulate_step_def EE_PatientStateMonitor_init_def
    PatientCostUtilityMonitor_init_def get_if_alive_def
    uniform_get_next_state_def uniform_sample_def HealthStates_of_value_def
    EE_PatientStateMonitor_update_def EE_PatientCostUtilityMonitor_update_def
    EE_cost_def EE_utility_def getitem_def pv_single_payment_def Let_def scenario_def draws_def
  have a: "\<forall>r. fst (uniform_get_next_state (probMatrix scenario) (HealthStates_value AIDS) r)
      \<noteq> HealthStates_value WELL"
    using uniform_get_next_state_scenario_AIDS by blast
  have "\<exists>p'. EE_Patient_simulate (draws [0.95, 0.5, 0.99]) uniform_get_next_state
      (EE_Patient_init 7 scenario) 10 = Inr (3, p')"
    by (simp add: ev)
  then obtain p' where sim: "EE_Patient_simulate (draws [0.95, 0.5, 0.99]) uniform_get_next_state
      (EE_Patient_init 7 scenario) 10 = Inr (3, p')"
    by blast
  have "\<exists>r1 s1. EE_Patient_simulate_steps uniform_get_next_state 1
      (draws [0.95, 0.5, 0.99] 7, EE_Patient_init 7 scenario) = Inr (r1, s1)
      \<and> currentState (stateMonitor s1) = AIDS \<and> timeToAIDS (stateMonitor s1) = Some 0.5"
    by (simp add: ev)
  then obtain r1 s1 where s1: "EE_Patient_simulate_steps uniform_get_next_state 1
      (draws [0.95, 0.5, 0.99] 7, EE_Patient_init 7 scenario) = Inr (r1, s1)"
    and c1: "currentState (stateMonitor s1) = AIDS"
    and t1: "timeToAIDS (stateMonitor s1) = Some 0.5"
    by blast
  have "\<exists>r2 s2. EE_Patient_simulate_steps uniform_get_next_state 3
      (draws [0.95, 0.5, 0.99] 7, EE_Patient_init 7 scenario) = Inr (r2, s2)"
    by (simp add: ev eval_nat_numeral)
  then obtain r2 s2 where s2: "EE_Patient_simulate_steps uniform_get_next_state 3
      (draws [0.95, 0.5, 0.99] 7, EE_Patient_init 7 scenario) = Inr (r2, s2)"
    by blast
  note th = C3_timeToAIDS_assigned [where time_step = 4 and new_state = AIDS
      and self = "MM_PatientStateMonitor_init scenario"
      and get_next_state = uniform_get_next_state and ps = scenario
      and RandomState = "draws [0.95, 0.5, 0.99]" and ident = 7 and n_time_steps = 10]
  have le: "(1 :: nat) \<le> 3" "3 \<le> nat (3 :: int)"
    by simp_all
  from th [THEN conjunct2, THEN conjunct2, THEN conjunct1, rule_format, of 3 p' 1 3 r1 s1 r2 s2 "0.5"]
    a sim le s1 s2 t1
  have t2: "timeToAIDS (stateMonitor s2) = Some 0.5"
    by blast
  have "currentState (MM_PatientStateMonitor_init scenario) = WELL"
    by (simp add: MM_PatientStateMonitor_init_def scenario_def)
  with th [THEN conjunct1]
  have u: "timeToAIDS (MM_PatientStateMonitor_update 4 AIDS (MM_PatientStateMonitor_init scenario))
      = Some 4.5"
    by simp
  from sim s1 s2 c1 t1 t2 le have "\<exists>k p' r1 s1 r2 s2.
          EE_Patient_simulate (draws [0.95, 0.5, 0.99]) uniform_get_next_state
            (EE_Patient_init 7 scenario) 10 = Inr (k, p')
          \<and> (1 :: nat) \<le> 3 \<and> 3 \<le> nat k
          \<and> EE_Patient_simulate_steps uniform_get_next_state 1
               (draws [0.95, 0.5, 0.99] 7, EE_Patient_init 7 scenario) = Inr (r1, s1)
          \<and> EE_Patient_simulate_steps uniform_get_next_state 3
               (draws [0.95, 0.5, 0.99] 7, EE_Patient_init 7 scenario) = Inr (r2, s2)
          \<and> currentState (stateMonitor s1) = AIDS
          \<and> timeToAIDS (stateMonitor s1) = Some 0.5
          \<and> timeToAIDS (stateMonitor s2) = Some 0.5"
    by blast
  with a u show ?thesis
    by blast
qed

end
